theory Spec2Isabelle
  imports Complex_Main
begin

section \<open>Python values used by the server\<close>

text \<open>
  The server is Python. Integers are unbounded (\<open>int\<close>), \<open>time.time()\<close> stamps and the
  results of true division are modelled as rationals (\<open>rat\<close>), strings as byte strings.
  Exceptions are values of \<open>exn\<close>; a function that may raise returns \<open>exn + 'a\<close>.
\<close>

datatype exn =
    ValueError string
  | ZeroDivisionError
  | AttributeError string
  | OSError string
  | CvError string
  | FirebaseError string
  | ModelError string

text \<open>\<open>str(e)\<close> for an exception: its message.\<close>

fun str_exn :: "exn \<Rightarrow> string" where
  "str_exn (ValueError m) = m"
| "str_exn ZeroDivisionError = ''division by zero''"
| "str_exn (AttributeError m) = m"
| "str_exn (OSError m) = m"
| "str_exn (CvError m) = m"
| "str_exn (FirebaseError m) = m"
| "str_exn (ModelError m) = m"

text \<open>\<open>str(n)\<close> for an integer: an optional minus sign and the decimal digits.\<close>

definition digit_char :: "nat \<Rightarrow> char" where
  "digit_char n = ''0123456789'' ! (n mod 10)"

fun str_nat :: "nat \<Rightarrow> string" where
  "str_nat n = (if n < 10 then [digit_char n] else str_nat (n div 10) @ [digit_char (n mod 10)])"

declare str_nat.simps [simp del]

definition str_int :: "int \<Rightarrow> string" where
  "str_int i = (if i < 0 then CHR ''-'' # str_nat (nat (- i)) else str_nat (nat i))"

text \<open>\<open>int(x)\<close> for a float truncates towards zero.\<close>

definition py_int :: "rat \<Rightarrow> int" where
  "py_int x = (if 0 \<le> x then \<lfloor>x\<rfloor> else \<lceil>x\<rceil>)"

text \<open>
  The box coordinates of a detection are numpy integers (\<open>box.astype(int)\<close>), so \<open>/\<close> on
  them is numpy's true division: a zero divisor gives \<open>inf\<close> or \<open>nan\<close> with a warning and
  raises nothing. \<open>NonFinite\<close> stands for both.
\<close>

datatype np_float = Finite rat | NonFinite

fun np_truediv :: "np_float \<Rightarrow> rat \<Rightarrow> np_float" where
  "np_truediv (Finite a) b = (if b = 0 then NonFinite else Finite (a / b))"
| "np_truediv NonFinite b = NonFinite"

text \<open>\<open>s.lower()\<close>, on the ASCII letters.\<close>

definition lower_char :: "char \<Rightarrow> char" where
  "lower_char c =
     (case map_of (zip ''ABCDEFGHIJKLMNOPQRSTUVWXYZ'' ''abcdefghijklmnopqrstuvwxyz'') c of
        Some l \<Rightarrow> l
      | None \<Rightarrow> c)"

definition lower :: "string \<Rightarrow> string" where
  "lower s = map lower_char s"

text \<open>\<open>os.path.join(a, b)\<close> on a POSIX system.\<close>

definition path_join :: "string \<Rightarrow> string \<Rightarrow> string" where
  "path_join a b =
     (if b \<noteq> [] \<and> hd b = CHR ''/'' then b
      else if a = [] \<or> last a = CHR ''/'' then a @ b
      else a @ ''/'' @ b)"

section \<open>Data model\<close>

text \<open>
  A frame is a \<open>numpy.ndarray\<close>: its \<open>shape\<close> is (height, width, channels) and \<open>pixels\<close> gives
  the value at (row, column, channel). What OpenCV draws on a frame is kept as the list
  of drawing calls made on it (\<open>drawn\<close>), oldest first; rasterisation is OpenCV's.
\<close>

type_synonym point = "int \<times> int"
type_synonym color = "int \<times> int \<times> int"

datatype overlay_text =
    DetLabel string rat "int option"
  | FpsText rat

datatype draw =
    Rectangle point point color
  | PutText overlay_text point color
  | Line point point color

record frame =
  shape :: "nat \<times> nat \<times> nat"
  pixels :: "nat \<Rightarrow> nat \<Rightarrow> nat \<Rightarrow> nat"
  drawn :: "draw list"

text \<open>
  The detection dictionary built by \<open>YOLODetector.detect_and_track\<close>: the keys \<open>class\<close>,
  \<open>confidence\<close>, \<open>bbox\<close>, \<open>track_id\<close> and \<open>timestamp\<close> are always present; \<open>count\<close> is read
  with \<open>detection.get('count', 1)\<close> and may be absent.
\<close>

type_synonym bbox_t = "int \<times> int \<times> int \<times> int"

record detection =
  class_name :: string
  confidence :: rat
  bbox :: bbox_t
  track_id :: int
  timestamp :: rat
  count :: "int option"

section \<open>Configuration (app/config/config.py)\<close>

text \<open>
  Every setting is a module constant read once from the process environment, with a
  default. A \<open>config\<close> holds the values the constants have in one run of the server;
  \<open>default_config\<close> holds them when no environment variable is set.
\<close>

datatype source = SrcStr string | SrcInt int

record config =
  DEFAULT_STREAM_SOURCE :: string
  FRAME_WIDTH :: int
  FRAME_HEIGHT :: int
  FPS :: int
  MODEL_PATH :: string
  DETECTION_STORAGE_PATH :: string
  SAVE_DETECTIONS :: bool

definition default_config :: config where
  "default_config =
     \<lparr>DEFAULT_STREAM_SOURCE = ''0'', FRAME_WIDTH = 640, FRAME_HEIGHT = 480, FPS = 30,
      MODEL_PATH = ''yolov11m.pt'',
      DETECTION_STORAGE_PATH = ''app/static/datasets/mission'',
      SAVE_DETECTIONS = True\<rparr>"

section \<open>DetectionStorage (app/utils/detection_storage.py)\<close>

text \<open>The YOLO label line \<open><class_id> <x_center> <y_center> <width> <height>\<close>.\<close>

record yolo_label =
  class_id :: nat
  x_center :: np_float
  y_center :: np_float
  bbox_width :: np_float
  bbox_height :: np_float

text \<open>
  Lines 168 to 180 of \<open>save_detection_label\<close>: the normalised centre, width and height
  of the box, by true division with the frame's width and height.
\<close>

definition yolo_format :: "bbox_t \<Rightarrow> frame \<Rightarrow> yolo_label" where
  "yolo_format b fr =
     (case shape fr of (height, width, _) \<Rightarrow>
      (case b of (x1, y1, x2, y2) \<Rightarrow>
        \<lparr>class_id = 0,
         x_center = np_truediv (Finite (of_int (x1 + x2) / 2)) (of_nat width),
         y_center = np_truediv (Finite (of_int (y1 + y2) / 2)) (of_nat height),
         bbox_width = np_truediv (Finite (of_int (x2 - x1))) (of_nat width),
         bbox_height = np_truediv (Finite (of_int (y2 - y1))) (of_nat height)\<rparr>))"

section \<open>The world outside the process\<close>

text \<open>
  What the server prints and what it asks of the file system, of OpenCV and of Firebase
  is recorded as a trace of events, oldest first. A call that can raise carries the
  exception it raised, if any. \<open>wasteTypes\<close> is the remote node
  \<open>statistics/wasteTypes\<close>: a counter per waste type.
\<close>

datatype log_msg =
    FirebaseInitialized
  | ErrorInitializingFirebase exn
  | CreatedStorageDirectory string
  | FirebaseNotInitialized
  | UnknownWasteType string
  | UpdatedFirebase int string
  | ErrorUpdatingFirebase exn
  | DetectionLine string int rat rat
  | SavedDetectionImage string
  | ErrorSavingImage exn
  | SavedDetectionLabel string
  | ErrorSavingLabel exn
  | ErrorReadingFrame source
  | ErrorChangingSource exn
  | ModelLoaded string
  | ErrorLoadingModel exn
  | FallbackModel
  | ErrorLoadingFallback exn

datatype event =
    Print log_msg
  | Makedirs string
  | Imwrite string frame "exn option"
  | WriteLabel string yolo_label "exn option"
  | Transaction string int "exn option"

record world =
  wasteTypes :: "string \<rightharpoonup> int"
  trace :: "event list"

definition emit :: "event \<Rightarrow> world \<Rightarrow> world" where
  "emit e w = w\<lparr>trace := trace w @ [e]\<rparr>"

text \<open>
  The faults of the outside world during one call: for each external operation, the
  exception it raises, if it raises.
\<close>

record faults =
  transaction_raises :: "string \<Rightarrow> exn option"
  imwrite_raises :: "string \<Rightarrow> exn option"
  open_raises :: "string \<Rightarrow> exn option"

definition no_faults :: faults where
  "no_faults = \<lparr>transaction_raises = (\<lambda>_. None), imwrite_raises = (\<lambda>_. None),
                 open_raises = (\<lambda>_. None)\<rparr>"

record detection_storage =
  storage_path :: string
  seen_objects :: "string set"
  db_ref :: "string option"

text \<open>
  \<open>DetectionStorage.__init__\<close>: the storage directory is created when it does not exist,
  the seen set starts empty, and \<open>initialize_firebase\<close> leaves \<open>db_ref\<close> at \<open>None\<close> when the
  credentials or the connection fail (\<open>firebase_fault\<close>).
\<close>

definition ensure_storage_directory :: "string \<Rightarrow> bool \<Rightarrow> world \<Rightarrow> world" where
  "ensure_storage_directory path path_exists w =
     (if \<not> path_exists then emit (Print (CreatedStorageDirectory path)) (emit (Makedirs path) w)
      else w)"

definition initialize_firebase :: "exn option \<Rightarrow> detection_storage \<Rightarrow> world \<Rightarrow>
    detection_storage \<times> world" where
  "initialize_firebase firebase_fault ds w =
     (case firebase_fault of
        None \<Rightarrow> (ds\<lparr>db_ref := Some ''detections''\<rparr>, emit (Print FirebaseInitialized) w)
      | Some e \<Rightarrow> (ds, emit (Print (ErrorInitializingFirebase e)) w))"

definition DetectionStorage_init :: "string \<Rightarrow> bool \<Rightarrow> exn option \<Rightarrow> world \<Rightarrow>
    detection_storage \<times> world" where
  "DetectionStorage_init path path_exists firebase_fault w =
     initialize_firebase firebase_fault
       \<lparr>storage_path = path, seen_objects = {}, db_ref = None\<rparr>
       (ensure_storage_directory path path_exists w)"

text \<open>\<open>store_to_firebase\<close>: the body of the \<open>try\<close> block, then the method.\<close>

definition increment_count :: "int \<Rightarrow> int option \<Rightarrow> int" where
  "increment_count n current = (case current of None \<Rightarrow> n | Some c \<Rightarrow> c + n)"

definition known_waste_types :: "string list" where
  "known_waste_types = [''metal'', ''glass'', ''plastic'']"

definition store_to_firebase_try :: "faults \<Rightarrow> detection \<Rightarrow> world \<Rightarrow> (exn + unit) \<times> world" where
  "store_to_firebase_try fl d w =
     (let waste_type = lower (class_name d) in
      if waste_type \<notin> set known_waste_types
      then (Inr (), emit (Print (UnknownWasteType waste_type)) w)
      else
        (let n = (case count d of None \<Rightarrow> 1 | Some c \<Rightarrow> c) in
         (case transaction_raises fl waste_type of
            Some e \<Rightarrow> (Inl e, emit (Transaction waste_type n (Some e)) w)
          | None \<Rightarrow>
              (Inr (),
               emit (Print (UpdatedFirebase n waste_type))
                 (emit (Transaction waste_type n None)
                    (w\<lparr>wasteTypes := (wasteTypes w)
                          (waste_type \<mapsto> increment_count n (wasteTypes w waste_type))\<rparr>))))))"

definition store_to_firebase :: "detection_storage \<Rightarrow> faults \<Rightarrow> detection \<Rightarrow> world \<Rightarrow>
    (exn + unit) \<times> world" where
  "store_to_firebase ds fl d w =
     (if db_ref ds = None then (Inr (), emit (Print FirebaseNotInitialized) w)
      else
        (case store_to_firebase_try fl d w of
           (Inl e, w') \<Rightarrow> (Inr (), emit (Print (ErrorUpdatingFirebase e)) w')
         | (Inr u, w') \<Rightarrow> (Inr (), w')))"

text \<open>The file name \<open>{timestamp}_{class}_{track_id}\<close> with its extension, in the storage directory.\<close>

definition detection_filepath :: "detection_storage \<Rightarrow> detection \<Rightarrow> string \<Rightarrow> string" where
  "detection_filepath ds d ext =
     path_join (storage_path ds)
       (str_int (py_int (timestamp d)) @ ''_'' @ class_name d @ ''_'' @ str_int (track_id d) @ ext)"

text \<open>
  \<open>save_detection_image\<close> and \<open>save_detection_label\<close>: each is one \<open>try\<close> block whose
  handler prints the exception and returns.
\<close>

definition save_detection_image_try :: "detection_storage \<Rightarrow> faults \<Rightarrow> detection \<Rightarrow> frame \<Rightarrow>
    world \<Rightarrow> (exn + unit) \<times> world" where
  "save_detection_image_try ds fl d fr w =
     (let filepath = detection_filepath ds d ''.jpg'' in
      (case imwrite_raises fl filepath of
         Some e \<Rightarrow> (Inl e, emit (Imwrite filepath fr (Some e)) w)
       | None \<Rightarrow> (Inr (), emit (Print (SavedDetectionImage filepath)) (emit (Imwrite filepath fr None) w))))"

definition save_detection_image :: "detection_storage \<Rightarrow> faults \<Rightarrow> detection \<Rightarrow> frame \<Rightarrow>
    world \<Rightarrow> (exn + unit) \<times> world" where
  "save_detection_image ds fl d fr w =
     (case save_detection_image_try ds fl d fr w of
        (Inl e, w') \<Rightarrow> (Inr (), emit (Print (ErrorSavingImage e)) w')
      | (Inr u, w') \<Rightarrow> (Inr (), w'))"

definition save_detection_label_try :: "detection_storage \<Rightarrow> faults \<Rightarrow> detection \<Rightarrow> frame \<Rightarrow>
    world \<Rightarrow> (exn + unit) \<times> world" where
  "save_detection_label_try ds fl d fr w =
     (let yolo_label = yolo_format (bbox d) fr;
          filepath = detection_filepath ds d ''.txt'' in
      (case open_raises fl filepath of
         Some e \<Rightarrow> (Inl e, emit (WriteLabel filepath yolo_label (Some e)) w)
       | None \<Rightarrow>
           (Inr (), emit (Print (SavedDetectionLabel filepath)) (emit (WriteLabel filepath yolo_label None) w))))"

definition save_detection_label :: "detection_storage \<Rightarrow> faults \<Rightarrow> detection \<Rightarrow> frame \<Rightarrow>
    world \<Rightarrow> (exn + unit) \<times> world" where
  "save_detection_label ds fl d fr w =
     (case save_detection_label_try ds fl d fr w of
        (Inl e, w') \<Rightarrow> (Inr (), emit (Print (ErrorSavingLabel e)) w')
      | (Inr u, w') \<Rightarrow> (Inr (), w'))"

text \<open>
  \<open>store_detection\<close>. The identifier of an object is the string \<open>{class}_{track_id}\<close>.
  An exception of a callee would pass through to the caller.
\<close>

definition object_id :: "detection \<Rightarrow> string" where
  "object_id d = class_name d @ ''_'' @ str_int (track_id d)"

definition store_detection :: "config \<Rightarrow> faults \<Rightarrow> detection_storage \<Rightarrow> detection \<Rightarrow> frame \<Rightarrow>
    world \<Rightarrow> (exn + bool) \<times> detection_storage \<times> world" where
  "store_detection cfg fl ds d fr w =
     (let oid = object_id d;
          is_new_detection = (oid \<notin> seen_objects ds) in
      (case store_to_firebase ds fl d w of
         (Inl e, w1) \<Rightarrow> (Inl e, ds, w1)
       | (Inr u, w1) \<Rightarrow>
          (let w2 = emit (Print (DetectionLine (class_name d) (track_id d) (confidence d) (timestamp d))) w1 in
           if is_new_detection \<and> SAVE_DETECTIONS cfg then
             (case save_detection_image ds fl d fr w2 of
                (Inl e, w3) \<Rightarrow> (Inl e, ds, w3)
              | (Inr u, w3) \<Rightarrow>
                 (case save_detection_label ds fl d fr w3 of
                    (Inl e, w4) \<Rightarrow> (Inl e, ds, w4)
                  | (Inr u, w4) \<Rightarrow>
                      (Inr is_new_detection, ds\<lparr>seen_objects := insert oid (seen_objects ds)\<rparr>, w4)))
           else (Inr is_new_detection, ds, w2))))"

text \<open>
  A sequence of calls of \<open>store_detection\<close> on one \<open>DetectionStorage\<close>, as \<open>process_frames\<close>
  makes them frame after frame. Each call has its own faults, detection and frame; the
  result lists, per call, what the call returned and the events it added to the trace.
\<close>

definition new_events :: "world \<Rightarrow> world \<Rightarrow> event list" where
  "new_events w w' = drop (length (trace w)) (trace w')"

fun record_calls :: "config \<Rightarrow> detection_storage \<Rightarrow> world \<Rightarrow> (faults \<times> detection \<times> frame) list \<Rightarrow>
    ((exn + bool) \<times> event list) list \<times> detection_storage \<times> world" where
  "record_calls cfg ds w [] = ([], ds, w)"
| "record_calls cfg ds w ((fl, d, fr) # cs) =
     (case store_detection cfg fl ds d fr w of
        (r, ds', w') \<Rightarrow>
          (case record_calls cfg ds' w' cs of
             (rs, ds'', w'') \<Rightarrow> ((r, new_events w w') # rs, ds'', w'')))"

text \<open>The identity of the object of a call, and the kinds of events counted below.\<close>

definition identity :: "faults \<times> detection \<times> frame \<Rightarrow> string \<times> int" where
  "identity c = (class_name (fst (snd c)), track_id (fst (snd c)))"

fun is_image_write :: "event \<Rightarrow> bool" where
  "is_image_write (Imwrite p f x) = True"
| "is_image_write e = False"

fun is_label_write :: "event \<Rightarrow> bool" where
  "is_label_write (WriteLabel p l x) = True"
| "is_label_write e = False"

fun is_relay :: "event \<Rightarrow> bool" where
  "is_relay (Transaction t n x) = True"
| "is_relay e = False"

definition image_writes :: "event list \<Rightarrow> nat" where
  "image_writes evs = length (filter is_image_write evs)"

definition label_writes :: "event list \<Rightarrow> nat" where
  "label_writes evs = length (filter is_label_write evs)"

section \<open>VideoStream (app/utils/video_stream.py)\<close>

text \<open>
  Frames held by a \<open>VideoStream\<close> are numpy arrays shared by reference between the
  producer thread and the readers, so they live in a heap: \<open>cell\<close> gives the array at an
  address and \<open>next_ref\<close> is the first address not yet allocated.
\<close>

type_synonym ref = nat

record heap =
  next_ref :: nat
  cell :: "nat \<Rightarrow> frame"

definition alloc :: "frame \<Rightarrow> heap \<Rightarrow> ref \<times> heap" where
  "alloc f h = (next_ref h, h\<lparr>next_ref := Suc (next_ref h), cell := (cell h)(next_ref h := f)\<rparr>)"

text \<open>The \<open>cv2.VideoCapture\<close> handle.\<close>

record capture =
  cap_source :: source
  isOpened :: bool
  released :: bool
  cap_width :: "int option"
  cap_height :: "int option"

text \<open>
  The fields of a \<open>VideoStream\<close>; the lock is left out, the model being sequential.
  \<open>producers\<close> counts the \<open>_update\<close> threads started on the object.
\<close>

record video_stream =
  source :: source
  stream :: "capture option"
  frame :: "ref option"
  stopped :: bool
  fps :: int
  last_frame_time :: rat
  frame_count :: nat
  actual_fps :: rat
  producers :: nat

definition VideoStream_init :: "config \<Rightarrow> source \<Rightarrow> video_stream" where
  "VideoStream_init cfg src =
     \<lparr>source = src, stream = None, frame = None, stopped = False, fps = FPS cfg,
      last_frame_time = 0, frame_count = 0, actual_fps = 0, producers = 0\<rparr>"

text \<open>\<open>s.isdigit()\<close> on ASCII, \<open>int(s)\<close> on a digit string, and \<open>str\<close> of a source.\<close>

definition isdigit :: "string \<Rightarrow> bool" where
  "isdigit s = (s \<noteq> [] \<and> list_all (\<lambda>c. c \<in> set ''0123456789'') s)"

definition digit_value :: "char \<Rightarrow> int" where
  "digit_value c = (case map_of (zip ''0123456789'' [0, 1, 2, 3, 4, 5, 6, 7, 8, 9]) c of
                      Some v \<Rightarrow> v | None \<Rightarrow> 0)"

definition int_of_digits :: "string \<Rightarrow> int" where
  "int_of_digits s = foldl (\<lambda>a c. 10 * a + digit_value c) 0 s"

definition str_source :: "source \<Rightarrow> string" where
  "str_source src = (case src of SrcStr s \<Rightarrow> s | SrcInt n \<Rightarrow> str_int n)"

text \<open>
  \<open>start\<close>. A source that is a digit string becomes a camera index. \<open>opens\<close> tells
  whether the capture device or URL can be opened. The assignments made before the
  \<open>raise\<close> stay in the object.
\<close>

definition camera_index :: "source \<Rightarrow> source" where
  "camera_index src =
     (case src of
        SrcStr s \<Rightarrow> if isdigit s then SrcInt (int_of_digits s) else SrcStr s
      | SrcInt n \<Rightarrow> SrcInt n)"

definition start :: "config \<Rightarrow> (source \<Rightarrow> bool) \<Rightarrow> video_stream \<Rightarrow> (exn + unit) \<times> video_stream" where
  "start cfg opens vs =
     (let src = camera_index (source vs);
          cap = \<lparr>cap_source = src, isOpened = opens src, released = False,
                 cap_width = None, cap_height = None\<rparr>;
          vs1 = vs\<lparr>source := src, stream := Some cap\<rparr>
      in if \<not> isOpened cap
         then (Inl (ValueError (''Could not open video source: '' @ str_source src)), vs1)
         else (Inr (),
               vs1\<lparr>stream := Some (cap\<lparr>cap_width := Some (FRAME_WIDTH cfg),
                                         cap_height := Some (FRAME_HEIGHT cfg)\<rparr>),
                    stopped := False,
                    producers := Suc (producers vs1)\<rparr>))"

text \<open>The body of \<open>with self.lock\<close> in \<open>_update\<close>: the new frame replaces the held one.\<close>

definition publish :: "ref \<Rightarrow> rat \<Rightarrow> video_stream \<Rightarrow> video_stream" where
  "publish r current_time vs = vs\<lparr>frame := Some r, last_frame_time := current_time\<rparr>"

text \<open>A sequence of publishes, each of a frame with the time of its capture.\<close>

definition publishes :: "(ref \<times> rat) list \<Rightarrow> video_stream \<Rightarrow> video_stream" where
  "publishes ps vs = foldl (\<lambda>s p. publish (fst p) (snd p) s) vs ps"

text \<open>
  \<open>_update\<close>, the producer loop. The device is a script of what \<open>self.stream.read()\<close>
  returns, call after call, each with the reading of \<open>time.time()\<close> that follows it; a
  frame read is a new array. The loop returns how it ended, the state, and the part of
  the script it did not read. \<open>Suspended\<close>: the script ended with the loop still running.
  The pacing \<open>sleep\<close> changes no state; its \<open>1.0 / self.fps\<close> raises when \<open>fps\<close> is 0.
\<close>

datatype loop_status = Exited | Died exn | Suspended

fun update :: "video_stream \<Rightarrow> heap \<Rightarrow> world \<Rightarrow> rat \<Rightarrow> (bool \<times> frame \<times> rat) list \<Rightarrow>
    loop_status \<times> video_stream \<times> heap \<times> world \<times> (bool \<times> frame \<times> rat) list" where
  "update vs h w last_fps_calc_time [] =
     (if stopped vs then (Exited, vs, h, w, []) else (Suspended, vs, h, w, []))"
| "update vs h w last_fps_calc_time ((ret, fr, current_time) # script) =
     (if stopped vs then (Exited, vs, h, w, (ret, fr, current_time) # script)
      else if \<not> ret
      then (Exited, vs\<lparr>stopped := True\<rparr>, h, emit (Print (ErrorReadingFrame (source vs))) w, script)
      else
        (let n = Suc (frame_count vs);
             tick = (current_time - last_fps_calc_time \<ge> 1);
             vs1 = (if tick
                    then vs\<lparr>frame_count := 0,
                            actual_fps := of_nat n / (current_time - last_fps_calc_time)\<rparr>
                    else vs\<lparr>frame_count := n\<rparr>);
             last' = (if tick then current_time else last_fps_calc_time)
         in (case alloc fr h of
               (r, h1) \<Rightarrow>
                 (let vs2 = publish r current_time vs1
                  in if fps vs2 = 0 then (Died ZeroDivisionError, vs2, h1, w, script)
                     else update vs2 h1 w last' script))))"

text \<open>\<open>read\<close>: \<open>None\<close>, or a copy of the held frame, which is a new array.\<close>

definition read :: "video_stream \<Rightarrow> heap \<Rightarrow> ref option \<times> heap" where
  "read vs h =
     (case frame vs of
        None \<Rightarrow> (None, h)
      | Some r \<Rightarrow> (case alloc (cell h r) h of (r', h') \<Rightarrow> (Some r', h')))"

definition stop :: "video_stream \<Rightarrow> video_stream" where
  "stop vs =
     vs\<lparr>stopped := True,
        stream := (case stream vs of None \<Rightarrow> None | Some c \<Rightarrow> Some (c\<lparr>released := True\<rparr>))\<rparr>"

definition is_stopped :: "video_stream \<Rightarrow> bool" where
  "is_stopped vs = stopped vs"

definition get_fps :: "video_stream \<Rightarrow> rat" where
  "get_fps vs = actual_fps vs"

definition change_source :: "config \<Rightarrow> (source \<Rightarrow> bool) \<Rightarrow> source \<Rightarrow> video_stream \<Rightarrow> world \<Rightarrow>
    bool \<times> video_stream \<times> world" where
  "change_source cfg opens new_source vs w =
     (let vs1 = (stop vs)\<lparr>source := new_source\<rparr>
      in (case start cfg opens vs1 of
            (Inl e, vs2) \<Rightarrow> (False, vs2, emit (Print (ErrorChangingSource e)) w)
          | (Inr u, vs2) \<Rightarrow> (True, vs2, w)))"

section \<open>YOLODetector (app/utils/yolo_detector.py)\<close>

text \<open>
  The detection model is external. \<open>model\<close> holds the name of the weights that were
  loaded, or \<open>None\<close>; what \<open>self.model.track\<close> returns for a frame is an input of
  \<open>detect_and_track\<close>. A result holds the boxes (corner coordinates, class indices,
  confidences, and the track identifiers when the tracker gave any) and the class names.
\<close>

record boxes_t =
  xyxy :: "(rat \<times> rat \<times> rat \<times> rat) list"
  cls :: "rat list"
  conf :: "rat list"
  ids :: "int list option"

record result =
  boxes :: boxes_t
  names :: "int \<Rightarrow> string"

record yolo_detector =
  model :: "string option"
  track_history :: "int \<rightharpoonup> point list"

text \<open>
  \<open>__init__\<close>: the configured weights, then the fallback weights, then no model.
  \<open>load\<close> gives the exception that loading a weights file raises, if any.
\<close>

definition YOLODetector_init :: "config \<Rightarrow> (string \<Rightarrow> exn option) \<Rightarrow> world \<Rightarrow>
    yolo_detector \<times> world" where
  "YOLODetector_init cfg load w =
     (case load (MODEL_PATH cfg) of
        None \<Rightarrow> (\<lparr>model = Some (MODEL_PATH cfg), track_history = Map.empty\<rparr>,
                 emit (Print (ModelLoaded (MODEL_PATH cfg))) w)
      | Some e \<Rightarrow>
         (let w1 = emit (Print (ErrorLoadingModel e)) w
          in (case load ''yolov8n.pt'' of
                None \<Rightarrow> (\<lparr>model = Some ''yolov8n.pt'', track_history = Map.empty\<rparr>,
                         emit (Print FallbackModel) w1)
              | Some e' \<Rightarrow> (\<lparr>model = None, track_history = Map.empty\<rparr>,
                           emit (Print (ErrorLoadingFallback e')) w1))))"

definition get_color :: "int \<Rightarrow> color" where
  "get_color idx = (let i = \<bar>idx\<bar> * 3 in ((37 * i) mod 255, (17 * i) mod 255, (29 * i) mod 255))"

text \<open>\<open>box.astype(int)\<close> truncates each coordinate.\<close>

definition astype_int :: "rat \<times> rat \<times> rat \<times> rat \<Rightarrow> bbox_t" where
  "astype_int box = (case box of (a, b, c, d) \<Rightarrow> (py_int a, py_int b, py_int c, py_int d))"

definition center_point :: "bbox_t \<Rightarrow> point" where
  "center_point b =
     (case b of (x1, y1, x2, y2) \<Rightarrow>
        (py_int (of_int (x1 + x2) / 2), py_int (of_int (y1 + y2) / 2)))"

text \<open>
  Lines 115 to 125: the centre point is appended to the history of the track, and the
  oldest point is removed when the history has more than 30 points.
\<close>

definition update_history :: "int \<Rightarrow> point \<Rightarrow> (int \<rightharpoonup> point list) \<Rightarrow> (int \<rightharpoonup> point list)" where
  "update_history tid center th =
     (let hist = (case th tid of None \<Rightarrow> [] | Some h \<Rightarrow> h) @ [center]
      in th(tid \<mapsto> (if length hist > 30 then tl hist else hist)))"


definition trail :: "point list \<Rightarrow> color \<Rightarrow> draw list" where
  "trail hist c = (if length hist > 1 then map (\<lambda>(p, q). Line p q c) (zip hist (tl hist)) else [])"

text \<open>
  One iteration of the loop over the tracked boxes; \<open>now\<close> is the reading of
  \<open>time.time()\<close>. The state of the loop is the processed frame, the detections so far
  and the track history.
\<close>

definition track_step :: "(int \<Rightarrow> string) \<Rightarrow> rat \<Rightarrow>
    (rat \<times> rat \<times> rat \<times> rat) \<times> rat \<times> rat \<times> int \<Rightarrow>
    frame \<times> detection list \<times> (int \<rightharpoonup> point list) \<Rightarrow>
    frame \<times> detection list \<times> (int \<rightharpoonup> point list)" where
  "track_step class_names now item st =
     (case item of (box, cls_id, cf, tid) \<Rightarrow>
      (case st of (processed_frame, detections, th) \<Rightarrow>
       (case astype_int box of (x1, y1, x2, y2) \<Rightarrow>
        (let cname = class_names (py_int cls_id);
             detection = \<lparr>class_name = cname, confidence = cf, bbox = (x1, y1, x2, y2),
                          track_id = tid, timestamp = now, count = None\<rparr>;
             color = get_color tid;
             th' = update_history tid (center_point (x1, y1, x2, y2)) th;
             hist = (case th' tid of None \<Rightarrow> [] | Some h \<Rightarrow> h)
         in (processed_frame\<lparr>drawn := drawn processed_frame @
                 [Rectangle (x1, y1) (x2, y2) color,
                  PutText (DetLabel cname cf (Some tid)) (x1, y1 - 10) color] @ trail hist color\<rparr>,
             detections @ [detection],
             th')))))"

text \<open>One iteration of the fallback loop: the index of the box stands for the track.\<close>

definition fallback_step :: "(int \<Rightarrow> string) \<Rightarrow> rat \<Rightarrow>
    nat \<times> (rat \<times> rat \<times> rat \<times> rat) \<times> rat \<times> rat \<Rightarrow>
    frame \<times> detection list \<Rightarrow> frame \<times> detection list" where
  "fallback_step class_names now item st =
     (case item of (i, box, cls_id, cf) \<Rightarrow>
      (case st of (processed_frame, detections) \<Rightarrow>
       (case astype_int box of (x1, y1, x2, y2) \<Rightarrow>
        (let cname = class_names (py_int cls_id);
             detection = \<lparr>class_name = cname, confidence = cf, bbox = (x1, y1, x2, y2),
                          track_id = int i, timestamp = now, count = None\<rparr>;
             color = get_color (int i)
         in (processed_frame\<lparr>drawn := drawn processed_frame @
                 [Rectangle (x1, y1) (x2, y2) color,
                  PutText (DetLabel cname cf None) (x1, y1 - 10) color]\<rparr>,
             detections @ [detection])))))"

text \<open>
  \<open>detect_and_track\<close>. \<open>tracked\<close> is what \<open>self.model.track\<close> returns or raises on the
  frame. Without a model the frame itself is returned with no detection.
\<close>

definition detect_and_track :: "yolo_detector \<Rightarrow> exn + result list \<Rightarrow> rat \<Rightarrow> frame \<Rightarrow>
    (exn + frame \<times> detection list) \<times> yolo_detector" where
  "detect_and_track yd tracked now fr =
     (if model yd = None then (Inr (fr, []), yd)
      else
        (case tracked of
           Inl e \<Rightarrow> (Inl e, yd)
         | Inr results \<Rightarrow>
            (case results of
               [] \<Rightarrow> (Inr (fr, []), yd)
             | res # rest \<Rightarrow>
                (let b = boxes res in
                 (case ids b of
                    Some track_ids \<Rightarrow>
                      (case foldl (\<lambda>st item. track_step (names res) now item st)
                              (fr, [], track_history yd)
                              (zip (xyxy b) (zip (cls b) (zip (conf b) track_ids))) of
                         (pf, dets, th) \<Rightarrow> (Inr (pf, dets), yd\<lparr>track_history := th\<rparr>))
                  | None \<Rightarrow>
                      (case foldl (\<lambda>st item. fallback_step (names res) now item st)
                              (fr, [])
                              (zip [0 ..< length (xyxy b)] (zip (xyxy b) (zip (cls b) (conf b)))) of
                         (pf, dets) \<Rightarrow> (Inr (pf, dets), yd)))))))"

section \<open>The application (app/__init__.py)\<close>

text \<open>
  The module's global variables. \<open>threads_started\<close> counts the processing threads
  started so far; \<open>processing_thread\<close> holds the number of the latest one.
\<close>

record app =
  video_stream :: "video_stream option"
  yolo_detector :: "yolo_detector option"
  detection_storage :: "detection_storage option"
  processing_thread :: "nat option"
  processing_frame :: "frame option"
  stream_active :: bool
  threads_started :: nat

record response =
  status :: string
  message :: string

text \<open>
  \<open>start_stream\<close>. The request body is the JSON object sent, or \<open>None\<close>; \<open>data.get\<close> on
  \<open>None\<close> raises outside the \<open>try\<close> block.
\<close>

definition start_stream :: "config \<Rightarrow> (source \<Rightarrow> bool) \<Rightarrow> (string \<rightharpoonup> source) option \<Rightarrow> app \<Rightarrow> world \<Rightarrow>
    (exn + response) \<times> app \<times> world" where
  "start_stream cfg opens body a w =
     (if stream_active a
      then (Inr \<lparr>status = ''error'', message = ''Stream already active''\<rparr>, a, w)
      else
        (case body of
           None \<Rightarrow> (Inl (AttributeError ''NoneType object has no attribute get''), a, w)
         | Some data \<Rightarrow>
            (let src = (case data ''source'' of
                          None \<Rightarrow> SrcStr (DEFAULT_STREAM_SOURCE cfg) | Some v \<Rightarrow> v);
                 started = \<lambda>vs w'.
                   (Inr \<lparr>status = ''success'',
                         message = ''Stream started with source: '' @ str_source src\<rparr>,
                    a\<lparr>video_stream := Some vs, stream_active := True,
                      processing_thread := Some (Suc (threads_started a)),
                      threads_started := Suc (threads_started a)\<rparr>,
                    w')
             in (case video_stream a of
                   None \<Rightarrow>
                     (case start cfg opens (VideoStream_init cfg src) of
                        (Inl e, vs) \<Rightarrow>
                          (Inr \<lparr>status = ''error'',
                                message = str_exn e\<rparr>, a, w)
                      | (Inr u, vs) \<Rightarrow> started vs w)
                 | Some vs0 \<Rightarrow>
                     (case change_source cfg opens src vs0 w of
                        (ok, vs, w') \<Rightarrow> started vs w')))))"

text \<open>\<open>stop_stream\<close>; joining the processing thread changes no variable.\<close>

definition stop_stream :: "app \<Rightarrow> (exn + response) \<times> app" where
  "stop_stream a =
     (if \<not> stream_active a
      then (Inr \<lparr>status = ''error'', message = ''No active stream to stop''\<rparr>, a)
      else
        (Inr \<lparr>status = ''success'', message = ''Stream stopped''\<rparr>,
         a\<lparr>stream_active := False,
           video_stream := (case video_stream a of None \<Rightarrow> None | Some vs \<Rightarrow> Some (stop vs))\<rparr>))"

text \<open>
  \<open>process_frames\<close>: the loop over the detections of a frame, then one turn of the
  \<open>while\<close> loop. An exception of \<open>detect_and_track\<close> or \<open>store_detection\<close> is not caught
  here and ends the thread.
\<close>

fun store_all :: "config \<Rightarrow> faults \<Rightarrow> detection_storage \<Rightarrow> detection list \<Rightarrow> frame \<Rightarrow> world \<Rightarrow>
    (exn + unit) \<times> detection_storage \<times> world" where
  "store_all cfg fl ds [] fr w = (Inr (), ds, w)"
| "store_all cfg fl ds (d # dets) fr w =
     (case store_detection cfg fl ds d fr w of
        (Inl e, ds', w') \<Rightarrow> (Inl e, ds', w')
      | (Inr is_new, ds', w') \<Rightarrow> store_all cfg fl ds' dets fr w')"

definition process_frames_turn :: "config \<Rightarrow> faults \<Rightarrow> exn + result list \<Rightarrow> rat \<Rightarrow> app \<Rightarrow> heap \<Rightarrow>
    world \<Rightarrow> (exn + unit) \<times> app \<times> heap \<times> world" where
  "process_frames_turn cfg fl tracked now a h w =
     (case video_stream a of
        None \<Rightarrow> (Inl (AttributeError ''NoneType object has no attribute read''), a, h, w)
      | Some vs \<Rightarrow>
         (case read vs h of
            (None, h') \<Rightarrow> (Inr (), a, h', w)
          | (Some r, h') \<Rightarrow>
             (case yolo_detector a of
                None \<Rightarrow>
                  (Inl (AttributeError ''NoneType object has no attribute detect_and_track''), a, h', w)
              | Some yd \<Rightarrow>
                 (case detect_and_track yd tracked now (cell h' r) of
                    (Inl e, yd') \<Rightarrow> (Inl e, a\<lparr>yolo_detector := Some yd'\<rparr>, h', w)
                  | (Inr (processed_frame, detections), yd') \<Rightarrow>
                     (case detection_storage a of
                        None \<Rightarrow>
                          (if detections = []
                           then (Inr (),
                                 a\<lparr>yolo_detector := Some yd',
                                   processing_frame := Some (processed_frame\<lparr>drawn :=
                                     drawn processed_frame @
                                       [PutText (FpsText (get_fps vs)) (10, 30) (0, 255, 0)]\<rparr>)\<rparr>,
                                 h', w)
                           else (Inl (AttributeError ''NoneType object has no attribute store_detection''),
                                 a\<lparr>yolo_detector := Some yd'\<rparr>, h', w))
                      | Some ds \<Rightarrow>
                         (case store_all cfg fl ds detections (cell h' r) w of
                            (Inl e, ds', w') \<Rightarrow>
                              (Inl e, a\<lparr>yolo_detector := Some yd', detection_storage := Some ds'\<rparr>, h', w')
                          | (Inr u, ds', w') \<Rightarrow>
                              (Inr (),
                               a\<lparr>yolo_detector := Some yd', detection_storage := Some ds',
                                 processing_frame := Some (processed_frame\<lparr>drawn :=
                                   drawn processed_frame @
                                     [PutText (FpsText (get_fps vs)) (10, 30) (0, 255, 0)]\<rparr>)\<rparr>,
                               h', w')))))))"

text \<open>
  \<open>generate_frames\<close>: what one turn of the generator's loop yields, given the JPEG
  encoder. The frame encoded is the processed frame, or the placeholder
  \<open>np.zeros((480, 640, 3))\<close> when there is none.
\<close>

definition blank_frame :: frame where
  "blank_frame = \<lparr>shape = (480, 640, 3), pixels = (\<lambda>row col ch. 0), drawn = []\<rparr>"

definition crlf :: string where
  "crlf = [CHR 0x0D, CHR 0x0A]"

definition frame_to_encode :: "app \<Rightarrow> frame" where
  "frame_to_encode a = (case processing_frame a of None \<Rightarrow> blank_frame | Some pf \<Rightarrow> pf)"

definition generate_frames_next :: "(frame \<Rightarrow> string) \<Rightarrow> app \<Rightarrow> string" where
  "generate_frames_next imencode a =
     (let frame_data = imencode (frame_to_encode a)
      in ''--frame'' @ crlf @ ''Content-Type: image/jpeg'' @ crlf @ crlf @ frame_data @ crlf)"

text \<open>
  The generator never ends: its output is the sequence of chunks, one per turn, each
  from the state of the application at that turn.
\<close>

definition generate_frames :: "(frame \<Rightarrow> string) \<Rightarrow> (nat \<Rightarrow> app) \<Rightarrow> nat \<Rightarrow> string" where
  "generate_frames imencode states n = generate_frames_next imencode (states n)"

section \<open>Example values\<close>

text \<open>
  The detection of the specification's examples: a metal object with track 5 and the box
  (10, 20, 110, 220), on a black 640 by 480 frame; a storage connected to Firebase and
  an empty world.
\<close>

definition metal_5 :: detection where
  "metal_5 = \<lparr>class_name = ''metal'', confidence = 9 / 10, bbox = (10, 20, 110, 220),
              track_id = 5, timestamp = 1700000000, count = None\<rparr>"

definition frame_640x480 :: frame where
  "frame_640x480 = \<lparr>shape = (480, 640, 3), pixels = (\<lambda>row col ch. 0), drawn = []\<rparr>"

definition empty_world :: world where
  "empty_world = \<lparr>wasteTypes = Map.empty, trace = []\<rparr>"

definition storage0 :: detection_storage where
  "storage0 = \<lparr>storage_path = ''app/static/datasets/mission'', seen_objects = {},
               db_ref = Some ''detections''\<rparr>"

definition call0 :: "faults \<times> detection \<times> frame" where
  "call0 = (no_faults, metal_5, frame_640x480)"

definition cfg_hd :: config where
  "cfg_hd = default_config\<lparr>FRAME_WIDTH := 1280, FRAME_HEIGHT := 720\<rparr>"

definition frame_a :: frame where
  "frame_a = \<lparr>shape = (480, 640, 3), pixels = (\<lambda>row col ch. 255), drawn = []\<rparr>"

definition heap0 :: heap where
  "heap0 = \<lparr>next_ref = 2, cell = (\<lambda>r. frame_640x480)(1 := frame_a)\<rparr>"

definition app_idle :: app where
  "app_idle = \<lparr>video_stream = None, yolo_detector = None, detection_storage = None,
                processing_thread = None, processing_frame = None, stream_active = False,
                threads_started = 0\<rparr>"

definition app_active :: app where
  "app_active = app_idle\<lparr>stream_active := True, processing_thread := Some 1, threads_started := 1\<rparr>"


definition no_weights :: "string \<Rightarrow> exn option" where
  "no_weights path = Some (ModelError ''no such file'')"

definition detector_without_model :: yolo_detector where
  "detector_without_model = \<lparr>model = None, track_history = Map.empty\<rparr>"

definition jpeg_stub :: "frame \<Rightarrow> string" where
  "jpeg_stub f = ''jpeg''"

definition never_opens :: "source \<Rightarrow> bool" where
  "never_opens src = False"

definition stream0 :: video_stream where
  "stream0 = VideoStream_init default_config (SrcStr ''0'')"

definition app_waiting :: app where
  "app_waiting = app_active\<lparr>video_stream := Some (publish 1 11 stream0),
                              yolo_detector := Some detector_without_model\<rparr>"

definition cfg_no_save :: config where
  "cfg_no_save = default_config\<lparr>SAVE_DETECTIONS := False\<rparr>"

definition storage_offline :: detection_storage where
  "storage_offline = storage0\<lparr>db_ref := None\<rparr>"

section \<open>Object identifiers\<close>

text \<open>
  The identifier \<open>{class}_{track_id}\<close> determines the class and the track: the decimal
  form of an integer has no underscore, so the last underscore separates the two.
\<close>

lemma digit_char_inj: "a < 10 \<Longrightarrow> b < 10 \<Longrightarrow> digit_char a = digit_char b \<Longrightarrow> a = b"
proof -
  assume a: "a < 10" and b: "b < 10" and e: "digit_char a = digit_char b"
  have d: "distinct ''0123456789''" by simp
  have "''0123456789'' ! a = ''0123456789'' ! b" using e a b by (simp add: digit_char_def)
  with d a b show "a = b" by (simp add: nth_eq_iff_index_eq)
qed

lemma digit_char_in: "digit_char n \<in> set ''0123456789''"
  unfolding digit_char_def by (rule nth_mem) simp

lemma str_nat_digits: "set (str_nat n) \<subseteq> set ''0123456789''"
proof (induction n rule: str_nat.induct)
  case (1 n)
  show ?case
  proof (cases "n < 10")
    case True
    then show ?thesis using digit_char_in[of n] by (subst str_nat.simps) simp
  next
    case False
    then show ?thesis using 1 digit_char_in[of "n mod 10"] by (subst str_nat.simps) simp
  qed
qed

lemma str_nat_nonempty: "str_nat n \<noteq> []"
  by (subst str_nat.simps) simp

lemma str_nat_inj: "str_nat a = str_nat b \<Longrightarrow> a = b"
proof (induction a arbitrary: b rule: str_nat.induct)
  case (1 n)
  show ?case
  proof (cases "n < 10")
    case True
    note n = this
    show ?thesis
    proof (cases "b < 10")
      case True
      with n 1(2) show ?thesis
        by (simp add: str_nat.simps[of n] str_nat.simps[of b] digit_char_inj)
    next
      case False
      with n 1(2) str_nat_nonempty[of "b div 10"] show ?thesis
        by (simp add: str_nat.simps[of n] str_nat.simps[of b] Cons_eq_append_conv)
    qed
  next
    case False
    note n = this
    show ?thesis
    proof (cases "b < 10")
      case True
      with n 1(2) str_nat_nonempty[of "n div 10"] show ?thesis
        by (simp add: str_nat.simps[of n] str_nat.simps[of b] append_eq_Cons_conv)
    next
      case False
      with n 1(2) have e: "str_nat (n div 10) = str_nat (b div 10)"
        and m: "digit_char (n mod 10) = digit_char (b mod 10)"
        by (simp_all add: str_nat.simps[of n] str_nat.simps[of b])
      from 1(1)[OF n e] have "n div 10 = b div 10" .
      moreover from m have "n mod 10 = b mod 10" by (simp add: digit_char_inj)
      ultimately show ?thesis by (metis div_mult_mod_eq)
    qed
  qed
qed

lemma str_nat_no_minus: "CHR ''-'' \<notin> set (str_nat n)"
  using str_nat_digits[of n] by auto

lemma str_int_inj: "str_int a = str_int b \<Longrightarrow> a = b"
proof -
  assume e: "str_int a = str_int b"
  have hd1: "\<And>n. hd (str_nat n) \<noteq> CHR ''-''"
    using str_nat_no_minus str_nat_nonempty by (metis hd_in_set)
  show "a = b"
  proof (cases "a < 0")
    case True
    note a = this
    show ?thesis
    proof (cases "b < 0")
      case True
      with a e have "str_nat (nat (- a)) = str_nat (nat (- b))" by (simp add: str_int_def)
      then have "nat (- a) = nat (- b)" by (rule str_nat_inj)
      with a True show ?thesis by simp
    next
      case False
      with a e have "CHR ''-'' # str_nat (nat (- a)) = str_nat (nat b)" by (simp add: str_int_def)
      then have "hd (str_nat (nat b)) = CHR ''-''" by (metis list.sel(1))
      with hd1 show ?thesis by blast
    qed
  next
    case False
    note a = this
    show ?thesis
    proof (cases "b < 0")
      case True
      with a e have "str_nat (nat a) = CHR ''-'' # str_nat (nat (- b))" by (simp add: str_int_def)
      then have "hd (str_nat (nat a)) = CHR ''-''" by (metis list.sel(1))
      with hd1 show ?thesis by blast
    next
      case False
      with a e have "str_nat (nat a) = str_nat (nat b)" by (simp add: str_int_def)
      then have "nat a = nat b" by (rule str_nat_inj)
      with a False show ?thesis by simp
    qed
  qed
qed

lemma str_int_no_underscore: "CHR ''_'' \<notin> set (str_int i)"
  using str_nat_digits[of "nat i"] str_nat_digits[of "nat (- i)"] by (auto simp: str_int_def)

lemma split_first_sep:
  "c \<notin> set xs \<Longrightarrow> c \<notin> set ys \<Longrightarrow> xs @ c # u = ys @ c # v \<Longrightarrow> xs = ys \<and> u = v"
proof (induction xs arbitrary: ys)
  case Nil
  then show ?case by (cases ys) auto
next
  case (Cons x xs)
  then show ?case by (cases ys) auto
qed

lemma split_last_sep:
  assumes "a @ c # s = b @ c # t" and "c \<notin> set s" and "c \<notin> set t"
  shows "a = b \<and> s = t"
proof -
  from assms(1) have "rev (a @ c # s) = rev (b @ c # t)" by simp
  then have eq: "rev s @ c # rev a = rev t @ c # rev b" by simp
  have ns: "c \<notin> set (rev s)" and nt: "c \<notin> set (rev t)" using assms(2,3) by simp_all
  from split_first_sep[OF ns nt eq] show ?thesis by simp
qed

lemma object_id_inj:
  "object_id d = object_id d' \<longleftrightarrow> class_name d = class_name d' \<and> track_id d = track_id d'"
proof
  assume "object_id d = object_id d'"
  then have "class_name d @ CHR ''_'' # str_int (track_id d) = class_name d' @ CHR ''_'' # str_int (track_id d')"
    by (simp add: object_id_def)
  from split_last_sep[OF this str_int_no_underscore str_int_no_underscore]
  show "class_name d = class_name d' \<and> track_id d = track_id d'"
    by (auto dest: str_int_inj)
next
  assume "class_name d = class_name d' \<and> track_id d = track_id d'"
  then show "object_id d = object_id d'" by (simp add: object_id_def)
qed


section \<open>One call of store_detection\<close>

text \<open>
  Each method of the storage as one equation: what it returns and the world it leaves.
  No method raises: every \<open>try\<close> block has its handler.
\<close>

lemma store_to_firebase_eq:
  "store_to_firebase ds fl d w =
     (Inr (),
      if db_ref ds = None then emit (Print FirebaseNotInitialized) w
      else if lower (class_name d) \<notin> set known_waste_types
      then emit (Print (UnknownWasteType (lower (class_name d)))) w
      else
        (case transaction_raises fl (lower (class_name d)) of
           Some e \<Rightarrow>
             emit (Print (ErrorUpdatingFirebase e))
               (emit (Transaction (lower (class_name d)) (case count d of None \<Rightarrow> 1 | Some c \<Rightarrow> c) (Some e)) w)
         | None \<Rightarrow>
             emit (Print (UpdatedFirebase (case count d of None \<Rightarrow> 1 | Some c \<Rightarrow> c) (lower (class_name d))))
               (emit (Transaction (lower (class_name d)) (case count d of None \<Rightarrow> 1 | Some c \<Rightarrow> c) None)
                  (w\<lparr>wasteTypes := (wasteTypes w)(lower (class_name d) \<mapsto>
                       increment_count (case count d of None \<Rightarrow> 1 | Some c \<Rightarrow> c)
                         (wasteTypes w (lower (class_name d))))\<rparr>))))"
  by (simp add: store_to_firebase_def store_to_firebase_try_def Let_def split: option.splits)

lemma save_detection_image_eq:
  "save_detection_image ds fl d fr w =
     (Inr (),
      emit (Print (case imwrite_raises fl (detection_filepath ds d ''.jpg'') of
                     None \<Rightarrow> SavedDetectionImage (detection_filepath ds d ''.jpg'')
                   | Some e \<Rightarrow> ErrorSavingImage e))
        (emit (Imwrite (detection_filepath ds d ''.jpg'') fr
                 (imwrite_raises fl (detection_filepath ds d ''.jpg''))) w))"
  by (simp add: save_detection_image_def save_detection_image_try_def Let_def split: option.splits)

lemma save_detection_label_eq:
  "save_detection_label ds fl d fr w =
     (Inr (),
      emit (Print (case open_raises fl (detection_filepath ds d ''.txt'') of
                     None \<Rightarrow> SavedDetectionLabel (detection_filepath ds d ''.txt'')
                   | Some e \<Rightarrow> ErrorSavingLabel e))
        (emit (WriteLabel (detection_filepath ds d ''.txt'') (yolo_format (bbox d) fr)
                 (open_raises fl (detection_filepath ds d ''.txt''))) w))"
  by (simp add: save_detection_label_def save_detection_label_try_def Let_def split: option.splits)

lemma store_detection_eq:
  "store_detection cfg fl ds d fr w =
     (Inr (object_id d \<notin> seen_objects ds),
      (if object_id d \<notin> seen_objects ds \<and> SAVE_DETECTIONS cfg
       then ds\<lparr>seen_objects := insert (object_id d) (seen_objects ds)\<rparr> else ds),
      (let w2 = emit (Print (DetectionLine (class_name d) (track_id d) (confidence d) (timestamp d)))
                  (snd (store_to_firebase ds fl d w))
       in if object_id d \<notin> seen_objects ds \<and> SAVE_DETECTIONS cfg
          then snd (save_detection_label ds fl d fr (snd (save_detection_image ds fl d fr w2)))
          else w2))"
  by (simp add: store_detection_def Let_def store_to_firebase_eq save_detection_image_eq
        save_detection_label_eq)

lemma firebase_trace:
  "trace (snd (store_to_firebase ds fl d w)) = trace w @
     (if db_ref ds = None then [Print FirebaseNotInitialized]
      else if lower (class_name d) \<notin> set known_waste_types
      then [Print (UnknownWasteType (lower (class_name d)))]
      else [Transaction (lower (class_name d)) (case count d of None \<Rightarrow> 1 | Some c \<Rightarrow> c)
              (transaction_raises fl (lower (class_name d))),
            Print (case transaction_raises fl (lower (class_name d)) of
                     None \<Rightarrow> UpdatedFirebase (case count d of None \<Rightarrow> 1 | Some c \<Rightarrow> c) (lower (class_name d))
                   | Some e \<Rightarrow> ErrorUpdatingFirebase e)])"
  by (simp add: store_to_firebase_eq emit_def split: option.splits)

lemma firebase_counter:
  "wasteTypes (snd (store_to_firebase ds fl d w)) =
     (if db_ref ds \<noteq> None \<and> lower (class_name d) \<in> set known_waste_types
         \<and> transaction_raises fl (lower (class_name d)) = None
      then (wasteTypes w)(lower (class_name d) \<mapsto>
              increment_count (case count d of None \<Rightarrow> 1 | Some c \<Rightarrow> c) (wasteTypes w (lower (class_name d))))
      else wasteTypes w)"
  by (cases "db_ref ds") (simp_all add: store_to_firebase_eq emit_def split: option.splits)

lemma store_detection_trace:
  "trace (snd (snd (store_detection cfg fl ds d fr w))) =
     trace (snd (store_to_firebase ds fl d w)) @
     [Print (DetectionLine (class_name d) (track_id d) (confidence d) (timestamp d))] @
     (if object_id d \<notin> seen_objects ds \<and> SAVE_DETECTIONS cfg
      then [Imwrite (detection_filepath ds d ''.jpg'') fr (imwrite_raises fl (detection_filepath ds d ''.jpg'')),
            Print (case imwrite_raises fl (detection_filepath ds d ''.jpg'') of
                     None \<Rightarrow> SavedDetectionImage (detection_filepath ds d ''.jpg'')
                   | Some e \<Rightarrow> ErrorSavingImage e),
            WriteLabel (detection_filepath ds d ''.txt'') (yolo_format (bbox d) fr)
              (open_raises fl (detection_filepath ds d ''.txt'')),
            Print (case open_raises fl (detection_filepath ds d ''.txt'') of
                     None \<Rightarrow> SavedDetectionLabel (detection_filepath ds d ''.txt'')
                   | Some e \<Rightarrow> ErrorSavingLabel e)]
      else [])"
  by (simp add: store_detection_eq Let_def save_detection_image_eq save_detection_label_eq emit_def)

lemma store_detection_counter:
  "wasteTypes (snd (snd (store_detection cfg fl ds d fr w))) = wasteTypes (snd (store_to_firebase ds fl d w))"
  by (simp add: store_detection_eq Let_def save_detection_image_eq save_detection_label_eq emit_def)


lemma store_detection_new_events:
  "new_events w (snd (snd (store_detection cfg fl ds d fr w))) =
     new_events w (snd (store_to_firebase ds fl d w)) @
     [Print (DetectionLine (class_name d) (track_id d) (confidence d) (timestamp d))] @
     (if object_id d \<notin> seen_objects ds \<and> SAVE_DETECTIONS cfg
      then [Imwrite (detection_filepath ds d ''.jpg'') fr (imwrite_raises fl (detection_filepath ds d ''.jpg'')),
            Print (case imwrite_raises fl (detection_filepath ds d ''.jpg'') of
                     None \<Rightarrow> SavedDetectionImage (detection_filepath ds d ''.jpg'')
                   | Some e \<Rightarrow> ErrorSavingImage e),
            WriteLabel (detection_filepath ds d ''.txt'') (yolo_format (bbox d) fr)
              (open_raises fl (detection_filepath ds d ''.txt'')),
            Print (case open_raises fl (detection_filepath ds d ''.txt'') of
                     None \<Rightarrow> SavedDetectionLabel (detection_filepath ds d ''.txt'')
                   | Some e \<Rightarrow> ErrorSavingLabel e)]
      else [])"
  unfolding new_events_def store_detection_trace firebase_trace by simp

lemma firebase_new_events:
  "new_events w (snd (store_to_firebase ds fl d w)) =
     (if db_ref ds = None then [Print FirebaseNotInitialized]
      else if lower (class_name d) \<notin> set known_waste_types
      then [Print (UnknownWasteType (lower (class_name d)))]
      else [Transaction (lower (class_name d)) (case count d of None \<Rightarrow> 1 | Some c \<Rightarrow> c)
              (transaction_raises fl (lower (class_name d))),
            Print (case transaction_raises fl (lower (class_name d)) of
                     None \<Rightarrow> UpdatedFirebase (case count d of None \<Rightarrow> 1 | Some c \<Rightarrow> c) (lower (class_name d))
                   | Some e \<Rightarrow> ErrorUpdatingFirebase e)])"
  unfolding new_events_def firebase_trace by simp

lemma store_detection_image_writes:
  "image_writes (new_events w (snd (snd (store_detection cfg fl ds d fr w)))) =
     (if object_id d \<notin> seen_objects ds \<and> SAVE_DETECTIONS cfg then 1 else 0)"
  by (simp add: image_writes_def store_detection_new_events firebase_new_events)

lemma store_detection_label_writes:
  "label_writes (new_events w (snd (snd (store_detection cfg fl ds d fr w)))) =
     (if object_id d \<notin> seen_objects ds \<and> SAVE_DETECTIONS cfg then 1 else 0)"
  by (simp add: label_writes_def store_detection_new_events firebase_new_events)

lemma store_detection_saving:
  assumes "SAVE_DETECTIONS cfg" and "store_detection cfg fl ds d fr w = (r, ds', w')"
  shows "r = Inr (object_id d \<notin> seen_objects ds)"
    and "seen_objects ds' = insert (object_id d) (seen_objects ds)"
    and "image_writes (new_events w w') = (if object_id d \<in> seen_objects ds then 0 else 1)"
    and "label_writes (new_events w w') = (if object_id d \<in> seen_objects ds then 0 else 1)"
proof -
  from assms(2) have r: "r = fst (store_detection cfg fl ds d fr w)"
    and d: "ds' = fst (snd (store_detection cfg fl ds d fr w))"
    and w: "w' = snd (snd (store_detection cfg fl ds d fr w))" by simp_all
  show "r = Inr (object_id d \<notin> seen_objects ds)" unfolding r by (simp add: store_detection_eq)
  show "seen_objects ds' = insert (object_id d) (seen_objects ds)"
    unfolding d using assms(1) by (auto simp: store_detection_eq)
  show "image_writes (new_events w w') = (if object_id d \<in> seen_objects ds then 0 else 1)"
    unfolding w store_detection_image_writes using assms(1) by simp
  show "label_writes (new_events w w') = (if object_id d \<in> seen_objects ds then 0 else 1)"
    unfolding w store_detection_label_writes using assms(1) by simp
qed

lemma store_detection_not_saving:
  assumes "\<not> SAVE_DETECTIONS cfg" and "store_detection cfg fl ds d fr w = (r, ds', w')"
  shows "r = Inr (object_id d \<notin> seen_objects ds)"
    and "ds' = ds"
    and "image_writes (new_events w w') = 0"
    and "label_writes (new_events w w') = 0"
proof -
  from assms(2) have r: "r = fst (store_detection cfg fl ds d fr w)"
    and d: "ds' = fst (snd (store_detection cfg fl ds d fr w))"
    and w: "w' = snd (snd (store_detection cfg fl ds d fr w))" by simp_all
  show "r = Inr (object_id d \<notin> seen_objects ds)" unfolding r by (simp add: store_detection_eq)
  show "ds' = ds" unfolding d using assms(1) by (simp add: store_detection_eq)
  show "image_writes (new_events w w') = 0"
    unfolding w store_detection_image_writes using assms(1) by simp
  show "label_writes (new_events w w') = 0"
    unfolding w store_detection_label_writes using assms(1) by simp
qed


section \<open>Sequences of calls of store_detection\<close>

lemma record_calls_saving:
  assumes "SAVE_DETECTIONS cfg" and "i < length cs"
  shows "fst (fst (record_calls cfg ds w cs) ! i) =
           Inr (object_id (fst (snd (cs ! i))) \<notin> seen_objects ds \<union> object_id ` fst ` snd ` set (take i cs))
       \<and> image_writes (snd (fst (record_calls cfg ds w cs) ! i)) =
           (if object_id (fst (snd (cs ! i))) \<in> seen_objects ds \<union> object_id ` fst ` snd ` set (take i cs) then 0 else 1)
       \<and> label_writes (snd (fst (record_calls cfg ds w cs) ! i)) =
           (if object_id (fst (snd (cs ! i))) \<in> seen_objects ds \<union> object_id ` fst ` snd ` set (take i cs) then 0 else 1)"
  using assms(2)
proof (induction cs arbitrary: ds w i)
  case Nil
  then show ?case by simp
next
  case (Cons c cs)
  obtain fl d fr where c: "c = (fl, d, fr)" by (cases c) auto
  obtain r ds' w' where st: "store_detection cfg fl ds d fr w = (r, ds', w')"
    by (cases "store_detection cfg fl ds d fr w") auto
  obtain rs ds'' w'' where rc: "record_calls cfg ds' w' cs = (rs, ds'', w'')"
    by (cases "record_calls cfg ds' w' cs") auto
  note step = store_detection_saving[OF assms(1) st]
  show ?case
  proof (cases i)
    case 0
    then show ?thesis using step by (simp add: c st rc)
  next
    case (Suc j)
    with Cons.prems have j: "j < length cs" by simp
    have seen: "seen_objects ds' \<union> object_id ` fst ` snd ` set (take j cs)
      = seen_objects ds \<union> object_id ` fst ` snd ` set (take (Suc j) (c # cs))"
      using step(2) by (simp add: c)
    from Cons.IH[OF j, of ds' w'] show ?thesis
      unfolding seen by (simp add: c st rc Suc)
  qed
qed

lemma record_calls_not_saving:
  assumes "\<not> SAVE_DETECTIONS cfg" and "i < length cs"
  shows "fst (fst (record_calls cfg ds w cs) ! i) = Inr (object_id (fst (snd (cs ! i))) \<notin> seen_objects ds)
       \<and> image_writes (snd (fst (record_calls cfg ds w cs) ! i)) = 0
       \<and> label_writes (snd (fst (record_calls cfg ds w cs) ! i)) = 0
       \<and> fst (snd (record_calls cfg ds w cs)) = ds"
  using assms(2)
proof (induction cs arbitrary: w i)
  case Nil
  then show ?case by simp
next
  case (Cons c cs)
  obtain fl d fr where c: "c = (fl, d, fr)" by (cases c) auto
  obtain r ds' w' where st: "store_detection cfg fl ds d fr w = (r, ds', w')"
    by (cases "store_detection cfg fl ds d fr w") auto
  note step = store_detection_not_saving[OF assms(1) st]
  obtain rs ds'' w'' where rc: "record_calls cfg ds w' cs = (rs, ds'', w'')"
    by (cases "record_calls cfg ds w' cs") auto
  have fin: "ds'' = ds"
  proof (cases cs)
    case Nil
    with rc show ?thesis by simp
  next
    case (Cons a list)
    then have "0 < length cs" by simp
    from Cons.IH[OF this, of w'] rc show ?thesis by simp
  qed
  show ?case
  proof (cases i)
    case 0
    then show ?thesis using step fin by (simp add: c st rc)
  next
    case (Suc j)
    with Cons.prems have j: "j < length cs" by simp
    from Cons.IH[OF j, of w'] show ?thesis using step(2) fin
      by (simp add: c st rc Suc)
  qed
qed

lemma first_occurrence_iff:
  "(object_id (fst (snd c)) \<in> object_id ` fst ` snd ` set xs) = (identity c \<in> set (map identity xs))"
proof -
  have "(object_id (fst (snd c)) \<in> object_id ` fst ` snd ` set xs)
      = (\<exists>x \<in> set xs. object_id (fst (snd c)) = object_id (fst (snd x)))"
    by (simp add: image_iff)
  also have "\<dots> = (\<exists>x \<in> set xs. identity c = identity x)"
    by (simp add: object_id_inj identity_def)
  also have "\<dots> = (identity c \<in> set (map identity xs))"
    by (simp add: image_iff)
  finally show ?thesis .
qed

text \<open>
  Claim C1, as the code has it. When \<open>SAVE_DETECTIONS\<close> is enabled, in any sequence of
  calls of \<open>store_detection\<close> on a storage whose seen set starts empty, whatever the
  faults of the outside world: a call returns \<open>True\<close> exactly when no earlier call had
  the same (class, track id), and then it makes one \<open>cv2.imwrite\<close> call and one label
  write; every other call returns \<open>False\<close> and makes neither.
\<close>

theorem once_per_identity_when_saving:
  assumes "SAVE_DETECTIONS cfg" and "seen_objects ds = {}" and "i < length cs"
  shows "fst (fst (record_calls cfg ds w cs) ! i) = Inr (identity (cs ! i) \<notin> set (map identity (take i cs)))
       \<and> image_writes (snd (fst (record_calls cfg ds w cs) ! i)) =
           (if identity (cs ! i) \<in> set (map identity (take i cs)) then 0 else 1)
       \<and> label_writes (snd (fst (record_calls cfg ds w cs) ! i)) =
           (if identity (cs ! i) \<in> set (map identity (take i cs)) then 0 else 1)"
  using record_calls_saving[OF assms(1,3), of ds w]
  by (simp only: assms(2) Un_empty_left first_occurrence_iff)

theorem once_per_identity_when_saving_witness:
  "SAVE_DETECTIONS default_config \<and> seen_objects storage0 = {} \<and> 1 < length [call0, call0]
   \<and> fst (fst (record_calls default_config storage0 empty_world [call0, call0]) ! 1) = Inr False
   \<and> image_writes (snd (fst (record_calls default_config storage0 empty_world [call0, call0]) ! 1)) = 0
   \<and> label_writes (snd (fst (record_calls default_config storage0 empty_world [call0, call0]) ! 1)) = 0
   \<and> fst (fst (record_calls default_config storage0 empty_world [call0, call0]) ! 0) = Inr True
   \<and> image_writes (snd (fst (record_calls default_config storage0 empty_world [call0, call0]) ! 0)) = 1
   \<and> label_writes (snd (fst (record_calls default_config storage0 empty_world [call0, call0]) ! 0)) = 1"
proof -
  have s: "SAVE_DETECTIONS default_config" by (simp add: default_config_def)
  have e: "seen_objects storage0 = {}" by (simp add: storage0_def)
  have l1: "1 < length [call0, call0]" by simp
  have l0: "0 < length [call0, call0]" by simp
  have w1: "identity (([call0, call0]) ! 1) \<in> set (map identity (take 1 [call0, call0]))"
    by simp
  have w0: "identity (([call0, call0]) ! 0) \<notin> set (map identity (take 0 [call0, call0]))"
    by simp
  note a = once_per_identity_when_saving[OF s e l1, of empty_world]
  note b = once_per_identity_when_saving[OF s e l0, of empty_world]
  have a': "fst (fst (record_calls default_config storage0 empty_world [call0, call0]) ! 1) = Inr False
   \<and> image_writes (snd (fst (record_calls default_config storage0 empty_world [call0, call0]) ! 1)) = 0
   \<and> label_writes (snd (fst (record_calls default_config storage0 empty_world [call0, call0]) ! 1)) = 0"
    using a w1 by (simp only: if_True simp_thms)
  have b': "fst (fst (record_calls default_config storage0 empty_world [call0, call0]) ! 0) = Inr True
   \<and> image_writes (snd (fst (record_calls default_config storage0 empty_world [call0, call0]) ! 0)) = 1
   \<and> label_writes (snd (fst (record_calls default_config storage0 empty_world [call0, call0]) ! 0)) = 1"
    using b w0 by (simp only: if_False simp_thms)
  show ?thesis
    apply (rule conjI[OF s])
    apply (rule conjI[OF e])
    apply (rule conjI[OF l1])
    apply (rule conjunct1[OF a', THEN conjI])
    apply (rule conjunct1[OF conjunct2[OF a'], THEN conjI])
    apply (rule conjunct2[OF conjunct2[OF a'], THEN conjI])
    apply (rule b')
    done
qed

text \<open>
  Claim C1 as stated fails when \<open>SAVE_DETECTIONS\<close> is disabled: the second call for the
  metal object with track 5 returns \<open>True\<close> again, and the first call writes no image
  and no label.
\<close>

theorem second_call_true_without_saving:
  "fst (fst (record_calls cfg_no_save storage0 empty_world [call0, call0]) ! 1) = Inr True
   \<and> fst (fst (record_calls cfg_no_save storage0 empty_world [call0, call0]) ! 0) = Inr True
   \<and> image_writes (snd (fst (record_calls cfg_no_save storage0 empty_world [call0, call0]) ! 0)) = 0
   \<and> label_writes (snd (fst (record_calls cfg_no_save storage0 empty_world [call0, call0]) ! 0)) = 0"
proof -
  have ns: "\<not> SAVE_DETECTIONS cfg_no_save" by (simp add: cfg_no_save_def)
  have un: "object_id metal_5 \<notin> seen_objects storage0" by (simp add: storage0_def)
  obtain r1 ds1 w1 where s1:
    "store_detection cfg_no_save no_faults storage0 metal_5 frame_640x480 empty_world = (r1, ds1, w1)"
    by (cases "store_detection cfg_no_save no_faults storage0 metal_5 frame_640x480 empty_world") auto
  note a = store_detection_not_saving[OF ns s1]
  obtain r2 ds2 w2 where s2:
    "store_detection cfg_no_save no_faults storage0 metal_5 frame_640x480 w1 = (r2, ds2, w2)"
    by (cases "store_detection cfg_no_save no_faults storage0 metal_5 frame_640x480 w1") auto
  note b = store_detection_not_saving[OF ns s2]
  show ?thesis
    using a b un by (simp add: call0_def s1 s2)
qed

text \<open>
  Claim C10. When \<open>SAVE_DETECTIONS\<close> is disabled the seen set is never updated: in any
  sequence of calls on a storage whose seen set starts empty, every call returns \<open>True\<close>,
  also for an identity met before, no image and no label is written, and the seen set
  is still empty at the end.
\<close>

theorem always_new_without_saving:
  assumes "\<not> SAVE_DETECTIONS cfg" and "seen_objects ds = {}" and "i < length cs"
  shows "fst (fst (record_calls cfg ds w cs) ! i) = Inr True
       \<and> image_writes (snd (fst (record_calls cfg ds w cs) ! i)) = 0
       \<and> label_writes (snd (fst (record_calls cfg ds w cs) ! i)) = 0
       \<and> seen_objects (fst (snd (record_calls cfg ds w cs))) = {}"
  using record_calls_not_saving[OF assms(1,3), of ds w] assms(2) by simp

theorem always_new_without_saving_witness:
  "\<not> SAVE_DETECTIONS cfg_no_save \<and> seen_objects storage0 = {} \<and> 2 < length [call0, call0, call0]
   \<and> fst (fst (record_calls cfg_no_save storage0 empty_world [call0, call0, call0]) ! 2) = Inr True
   \<and> image_writes (snd (fst (record_calls cfg_no_save storage0 empty_world [call0, call0, call0]) ! 2)) = 0
   \<and> label_writes (snd (fst (record_calls cfg_no_save storage0 empty_world [call0, call0, call0]) ! 2)) = 0
   \<and> seen_objects (fst (snd (record_calls cfg_no_save storage0 empty_world [call0, call0, call0]))) = {}"
proof -
  have ns: "\<not> SAVE_DETECTIONS cfg_no_save" by (simp add: cfg_no_save_def)
  have e: "seen_objects storage0 = {}" by (simp add: storage0_def)
  have l: "2 < length [call0, call0, call0]" by simp
  note a = always_new_without_saving[OF ns e l, of empty_world]
  show ?thesis
    apply (rule conjI[OF ns])
    apply (rule conjI[OF e])
    apply (rule conjI[OF l])
    apply (rule a)
    done
qed

section \<open>The statistics relay and the label\<close>

lemma relay_filter:
  "filter is_relay (new_events w (snd (snd (store_detection cfg fl ds d fr w)))) =
     (if db_ref ds \<noteq> None \<and> lower (class_name d) \<in> set known_waste_types
      then [Transaction (lower (class_name d)) (case count d of None \<Rightarrow> 1 | Some c \<Rightarrow> c)
              (transaction_raises fl (lower (class_name d)))]
      else [])"
  by (simp add: store_detection_new_events firebase_new_events)

lemma warn_iff:
  "(Print (UnknownWasteType (lower (class_name d))) \<in> set (new_events w (snd (snd (store_detection cfg fl ds d fr w)))))
   = (db_ref ds \<noteq> None \<and> lower (class_name d) \<notin> set known_waste_types)"
  by (auto simp: store_detection_new_events firebase_new_events split: option.splits)

lemma relay_error_iff:
  "(Print (ErrorUpdatingFirebase e) \<in> set (new_events w (snd (snd (store_detection cfg fl ds d fr w)))))
   = (db_ref ds \<noteq> None \<and> lower (class_name d) \<in> set known_waste_types
      \<and> transaction_raises fl (lower (class_name d)) = Some e)"
  by (auto simp: store_detection_new_events firebase_new_events split: option.splits)

lemma image_error_iff:
  "(Print (ErrorSavingImage e) \<in> set (new_events w (snd (snd (store_detection cfg fl ds d fr w)))))
   = (object_id d \<notin> seen_objects ds \<and> SAVE_DETECTIONS cfg
      \<and> imwrite_raises fl (detection_filepath ds d ''.jpg'') = Some e)"
  by (auto simp: store_detection_new_events firebase_new_events split: option.splits)

lemma label_error_iff:
  "(Print (ErrorSavingLabel e) \<in> set (new_events w (snd (snd (store_detection cfg fl ds d fr w)))))
   = (object_id d \<notin> seen_objects ds \<and> SAVE_DETECTIONS cfg
      \<and> open_raises fl (detection_filepath ds d ''.txt'') = Some e)"
  by (auto simp: store_detection_new_events firebase_new_events split: option.splits)

lemma counter_eq:
  "wasteTypes (snd (snd (store_detection cfg fl ds d fr w))) =
     (if db_ref ds \<noteq> None \<and> lower (class_name d) \<in> set known_waste_types
         \<and> transaction_raises fl (lower (class_name d)) = None
      then (wasteTypes w)(lower (class_name d) \<mapsto>
              increment_count (case count d of None \<Rightarrow> 1 | Some c \<Rightarrow> c) (wasteTypes w (lower (class_name d))))
      else wasteTypes w)"
  by (simp only: store_detection_counter firebase_counter)

lemma not_initialized_iff:
  "(Print FirebaseNotInitialized \<in> set (new_events w (snd (snd (store_detection cfg fl ds d fr w)))))
   = (db_ref ds = None)"
  by (auto simp: store_detection_new_events firebase_new_events split: option.splits)

lemma updated_iff:
  "(Print (UpdatedFirebase n t) \<in> set (new_events w (snd (snd (store_detection cfg fl ds d fr w)))))
   = (db_ref ds \<noteq> None \<and> lower (class_name d) \<in> set known_waste_types
      \<and> transaction_raises fl (lower (class_name d)) = None
      \<and> n = (case count d of None \<Rightarrow> 1 | Some c \<Rightarrow> c) \<and> t = lower (class_name d))"
  by (auto simp: store_detection_new_events firebase_new_events split: option.splits)

text \<open>
  Claim C4, as the code has it. A call of \<open>store_detection\<close> never raises, whatever the
  faults of Firebase, OpenCV and the file system. Whether the identity is new or not,
  and whether saving is enabled or not, it makes exactly one counter transaction, for
  the lower-cased class and the detection's count (1 by default), when Firebase was
  initialised (\<open>db_ref\<close> is not \<open>None\<close>) and the lower-cased class is metal, glass or
  plastic, and none otherwise. The remote counter grows by the count when the
  transaction succeeds and is unchanged otherwise. When Firebase was not initialised
  the call prints that it skips the storage, and only then. An unrecognised class is
  reported by a printed warning; a transaction that succeeds is reported by a printed
  line; a failing transaction, image write or label write is reported by a printed
  error. The last conjunct gives all the events of the call, in order.
\<close>

theorem relay_on_every_call:
  "fst (store_detection cfg fl ds d fr w) = Inr (object_id d \<notin> seen_objects ds)
   \<and> filter is_relay (new_events w (snd (snd (store_detection cfg fl ds d fr w)))) =
       (if db_ref ds \<noteq> None \<and> lower (class_name d) \<in> set known_waste_types
        then [Transaction (lower (class_name d)) (case count d of None \<Rightarrow> 1 | Some c \<Rightarrow> c)
                (transaction_raises fl (lower (class_name d)))]
        else [])
   \<and> wasteTypes (snd (snd (store_detection cfg fl ds d fr w))) =
       (if db_ref ds \<noteq> None \<and> lower (class_name d) \<in> set known_waste_types
           \<and> transaction_raises fl (lower (class_name d)) = None
        then (wasteTypes w)(lower (class_name d) \<mapsto>
                increment_count (case count d of None \<Rightarrow> 1 | Some c \<Rightarrow> c) (wasteTypes w (lower (class_name d))))
        else wasteTypes w)
   \<and> (Print (UnknownWasteType (lower (class_name d))) \<in> set (new_events w (snd (snd (store_detection cfg fl ds d fr w)))))
       = (db_ref ds \<noteq> None \<and> lower (class_name d) \<notin> set known_waste_types)
   \<and> (Print (ErrorUpdatingFirebase e) \<in> set (new_events w (snd (snd (store_detection cfg fl ds d fr w)))))
       = (db_ref ds \<noteq> None \<and> lower (class_name d) \<in> set known_waste_types
          \<and> transaction_raises fl (lower (class_name d)) = Some e)
   \<and> (Print (ErrorSavingImage e) \<in> set (new_events w (snd (snd (store_detection cfg fl ds d fr w)))))
       = (object_id d \<notin> seen_objects ds \<and> SAVE_DETECTIONS cfg
          \<and> imwrite_raises fl (detection_filepath ds d ''.jpg'') = Some e)
   \<and> (Print (ErrorSavingLabel e) \<in> set (new_events w (snd (snd (store_detection cfg fl ds d fr w)))))
       = (object_id d \<notin> seen_objects ds \<and> SAVE_DETECTIONS cfg
          \<and> open_raises fl (detection_filepath ds d ''.txt'') = Some e)
   \<and> (Print FirebaseNotInitialized \<in> set (new_events w (snd (snd (store_detection cfg fl ds d fr w)))))
       = (db_ref ds = None)
   \<and> (Print (UpdatedFirebase n t) \<in> set (new_events w (snd (snd (store_detection cfg fl ds d fr w)))))
       = (db_ref ds \<noteq> None \<and> lower (class_name d) \<in> set known_waste_types
          \<and> transaction_raises fl (lower (class_name d)) = None
          \<and> n = (case count d of None \<Rightarrow> 1 | Some c \<Rightarrow> c) \<and> t = lower (class_name d))
   \<and> new_events w (snd (snd (store_detection cfg fl ds d fr w))) =
       (if db_ref ds = None then [Print FirebaseNotInitialized]
        else if lower (class_name d) \<notin> set known_waste_types
        then [Print (UnknownWasteType (lower (class_name d)))]
        else [Transaction (lower (class_name d)) (case count d of None \<Rightarrow> 1 | Some c \<Rightarrow> c)
                (transaction_raises fl (lower (class_name d))),
              Print (case transaction_raises fl (lower (class_name d)) of
                       None \<Rightarrow> UpdatedFirebase (case count d of None \<Rightarrow> 1 | Some c \<Rightarrow> c) (lower (class_name d))
                     | Some e \<Rightarrow> ErrorUpdatingFirebase e)]) @
       [Print (DetectionLine (class_name d) (track_id d) (confidence d) (timestamp d))] @
       (if object_id d \<notin> seen_objects ds \<and> SAVE_DETECTIONS cfg
        then [Imwrite (detection_filepath ds d ''.jpg'') fr (imwrite_raises fl (detection_filepath ds d ''.jpg'')),
              Print (case imwrite_raises fl (detection_filepath ds d ''.jpg'') of
                       None \<Rightarrow> SavedDetectionImage (detection_filepath ds d ''.jpg'')
                     | Some e \<Rightarrow> ErrorSavingImage e),
              WriteLabel (detection_filepath ds d ''.txt'') (yolo_format (bbox d) fr)
                (open_raises fl (detection_filepath ds d ''.txt'')),
              Print (case open_raises fl (detection_filepath ds d ''.txt'') of
                       None \<Rightarrow> SavedDetectionLabel (detection_filepath ds d ''.txt'')
                     | Some e \<Rightarrow> ErrorSavingLabel e)]
        else [])"
  apply (intro conjI)
           apply (simp add: store_detection_eq)
          apply (rule relay_filter)
         apply (rule counter_eq)
        apply (rule warn_iff)
       apply (rule relay_error_iff)
      apply (rule image_error_iff)
     apply (rule label_error_iff)
    apply (rule not_initialized_iff)
   apply (rule updated_iff)
  apply (rule store_detection_new_events[unfolded firebase_new_events])
  done

theorem relay_on_every_call_witness:
  "fst (store_detection default_config no_faults storage0 metal_5 frame_640x480 empty_world) = Inr True
   \<and> filter is_relay (new_events empty_world
        (snd (snd (store_detection default_config no_faults storage0 metal_5 frame_640x480 empty_world))))
       = [Transaction ''metal'' 1 None]
   \<and> wasteTypes (snd (snd (store_detection default_config no_faults storage0 metal_5 frame_640x480 empty_world)))
        ''metal'' = Some 1"
proof -
  note a = relay_on_every_call[of default_config no_faults storage0 metal_5 frame_640x480 empty_world]
  have l: "lower (class_name metal_5) = ''metal''"
    by (simp add: metal_5_def lower_def lower_char_def)
  have k: "''metal'' \<in> set known_waste_types" by (simp add: known_waste_types_def)
  have r: "db_ref storage0 \<noteq> None" by (simp add: storage0_def)
  have u: "object_id metal_5 \<notin> seen_objects storage0" by (simp add: storage0_def)
  have c: "count metal_5 = None" by (simp add: metal_5_def)
  have t: "transaction_raises no_faults ''metal'' = None" by (simp add: no_faults_def)
  have e: "wasteTypes empty_world ''metal'' = None" by (simp add: empty_world_def)
  have a1: "fst (store_detection default_config no_faults storage0 metal_5 frame_640x480 empty_world) = Inr True"
    using conjunct1[OF a] u by simp
  have a2: "filter is_relay (new_events empty_world
        (snd (snd (store_detection default_config no_faults storage0 metal_5 frame_640x480 empty_world))))
       = [Transaction ''metal'' 1 None]"
    using conjunct1[OF conjunct2[OF a]] by (simp add: l k r c t)
  have a3: "wasteTypes (snd (snd (store_detection default_config no_faults storage0 metal_5 frame_640x480 empty_world)))
        ''metal'' = Some 1"
    using conjunct1[OF conjunct2[OF conjunct2[OF a]]] by (simp add: l k r c t e increment_count_def)
  show ?thesis
    apply (rule conjI[OF a1])
    apply (rule conjI[OF a2])
    apply (rule a3)
    done
qed

text \<open>
  Claim C4 as stated fails when Firebase could not be initialised: the call for the
  metal object makes no transaction and the counter of metal stays absent.
\<close>

theorem no_relay_when_firebase_offline:
  "filter is_relay (new_events empty_world
      (snd (snd (store_detection default_config no_faults storage_offline metal_5 frame_640x480 empty_world)))) = []
   \<and> wasteTypes (snd (snd (store_detection default_config no_faults storage_offline metal_5 frame_640x480 empty_world))) ''metal'' = None
   \<and> lower (class_name metal_5) \<in> set known_waste_types"
  by (simp add: relay_filter counter_eq storage_offline_def storage0_def empty_world_def
        metal_5_def lower_def lower_char_def known_waste_types_def)

text \<open>
  Claim C5. For every box and every frame, the label has class 0 and, when the frame's
  width and height are not zero, x_center = (x1 + x2) / 2 / width,
  y_center = (y1 + y2) / 2 / height, width = (x2 - x1) / width and
  height = (y2 - y1) / height; \<open>save_detection_label\<close> writes exactly one label, which
  is this one for the detection's box and the frame. For the box (10, 20, 110, 220) on
  a frame 640 wide and 480 high the label has x_center 0.09375, y_center 0.25, width
  0.15625 and height 5/12, each within 0.0001 of the values 0.09375, 0.25, 0.15625 and
  0.41667.
\<close>

theorem label_of_example_box:
  "yolo_format (x1, y1, x2, y2) (fr\<lparr>shape := (hh, ww, ch)\<rparr>) =
     \<lparr>class_id = 0,
      x_center = (if ww = 0 then NonFinite else Finite (of_int (x1 + x2) / 2 / of_nat ww)),
      y_center = (if hh = 0 then NonFinite else Finite (of_int (y1 + y2) / 2 / of_nat hh)),
      bbox_width = (if ww = 0 then NonFinite else Finite (of_int (x2 - x1) / of_nat ww)),
      bbox_height = (if hh = 0 then NonFinite else Finite (of_int (y2 - y1) / of_nat hh))\<rparr>
   \<and> filter is_label_write (new_events w (snd (save_detection_label ds fl d fr w))) =
      [WriteLabel (detection_filepath ds d ''.txt'') (yolo_format (bbox d) fr)
         (open_raises fl (detection_filepath ds d ''.txt''))]
   \<and> yolo_format (10, 20, 110, 220) (fr\<lparr>shape := (480, 640, ch)\<rparr>) =
     \<lparr>class_id = 0, x_center = Finite 0.09375, y_center = Finite 0.25,
      bbox_width = Finite 0.15625, bbox_height = Finite (5 / 12)\<rparr>
   \<and> (case x_center (yolo_format (10, 20, 110, 220) (fr\<lparr>shape := (480, 640, ch)\<rparr>)) of
         Finite v \<Rightarrow> \<bar>v - 0.09375\<bar> \<le> 0.0001 | NonFinite \<Rightarrow> False)
   \<and> (case y_center (yolo_format (10, 20, 110, 220) (fr\<lparr>shape := (480, 640, ch)\<rparr>)) of
         Finite v \<Rightarrow> \<bar>v - 0.25\<bar> \<le> 0.0001 | NonFinite \<Rightarrow> False)
   \<and> (case bbox_width (yolo_format (10, 20, 110, 220) (fr\<lparr>shape := (480, 640, ch)\<rparr>)) of
         Finite v \<Rightarrow> \<bar>v - 0.15625\<bar> \<le> 0.0001 | NonFinite \<Rightarrow> False)
   \<and> (case bbox_height (yolo_format (10, 20, 110, 220) (fr\<lparr>shape := (480, 640, ch)\<rparr>)) of
         Finite v \<Rightarrow> \<bar>v - 0.41667\<bar> \<le> 0.0001 | NonFinite \<Rightarrow> False)
   \<and> filter is_label_write (new_events w (snd (save_detection_label ds fl
        (d\<lparr>bbox := (10, 20, 110, 220)\<rparr>) (fr\<lparr>shape := (480, 640, ch)\<rparr>) w))) =
      [WriteLabel (detection_filepath ds d ''.txt'')
         \<lparr>class_id = 0, x_center = Finite 0.09375, y_center = Finite 0.25,
          bbox_width = Finite 0.15625, bbox_height = Finite (5 / 12)\<rparr>
         (open_raises fl (detection_filepath ds d ''.txt''))]"
proof -
  have g: "yolo_format (x1, y1, x2, y2) (fr\<lparr>shape := (hh, ww, ch)\<rparr>) =
     \<lparr>class_id = 0,
      x_center = (if ww = 0 then NonFinite else Finite (of_int (x1 + x2) / 2 / of_nat ww)),
      y_center = (if hh = 0 then NonFinite else Finite (of_int (y1 + y2) / 2 / of_nat hh)),
      bbox_width = (if ww = 0 then NonFinite else Finite (of_int (x2 - x1) / of_nat ww)),
      bbox_height = (if hh = 0 then NonFinite else Finite (of_int (y2 - y1) / of_nat hh))\<rparr>"
    by (simp add: yolo_format_def)
  have lw: "filter is_label_write (new_events w (snd (save_detection_label ds fl d fr w))) =
      [WriteLabel (detection_filepath ds d ''.txt'') (yolo_format (bbox d) fr)
         (open_raises fl (detection_filepath ds d ''.txt''))]" for d fr
    by (simp add: save_detection_label_eq emit_def new_events_def)
  have y: "yolo_format (10, 20, 110, 220) (fr\<lparr>shape := (480, 640, ch)\<rparr>) =
     \<lparr>class_id = 0, x_center = Finite 0.09375, y_center = Finite 0.25,
      bbox_width = Finite 0.15625, bbox_height = Finite (5 / 12)\<rparr>"
    by (simp add: yolo_format_def)
  have tx: "(case x_center (yolo_format (10, 20, 110, 220) (fr\<lparr>shape := (480, 640, ch)\<rparr>)) of
         Finite v \<Rightarrow> \<bar>v - 0.09375\<bar> \<le> 0.0001 | NonFinite \<Rightarrow> False)"
    unfolding y by simp
  have ty: "(case y_center (yolo_format (10, 20, 110, 220) (fr\<lparr>shape := (480, 640, ch)\<rparr>)) of
         Finite v \<Rightarrow> \<bar>v - 0.25\<bar> \<le> 0.0001 | NonFinite \<Rightarrow> False)"
    unfolding y by simp
  have tw: "(case bbox_width (yolo_format (10, 20, 110, 220) (fr\<lparr>shape := (480, 640, ch)\<rparr>)) of
         Finite v \<Rightarrow> \<bar>v - 0.15625\<bar> \<le> 0.0001 | NonFinite \<Rightarrow> False)"
    unfolding y by simp
  have th: "(case bbox_height (yolo_format (10, 20, 110, 220) (fr\<lparr>shape := (480, 640, ch)\<rparr>)) of
         Finite v \<Rightarrow> \<bar>v - 0.41667\<bar> \<le> 0.0001 | NonFinite \<Rightarrow> False)"
    unfolding y by simp
  have p: "detection_filepath ds (d\<lparr>bbox := (10, 20, 110, 220)\<rparr>) ''.txt'' = detection_filepath ds d ''.txt''"
    by (simp add: detection_filepath_def)
  have l: "filter is_label_write (new_events w (snd (save_detection_label ds fl
        (d\<lparr>bbox := (10, 20, 110, 220)\<rparr>) (fr\<lparr>shape := (480, 640, ch)\<rparr>) w))) =
      [WriteLabel (detection_filepath ds d ''.txt'')
         \<lparr>class_id = 0, x_center = Finite 0.09375, y_center = Finite 0.25,
          bbox_width = Finite 0.15625, bbox_height = Finite (5 / 12)\<rparr>
         (open_raises fl (detection_filepath ds d ''.txt''))]"
    unfolding lw p by (simp add: y)
  show ?thesis
    apply (rule conjI[OF g])
    apply (rule conjI[OF lw])
    apply (rule conjI[OF y])
    apply (rule conjI[OF tx])
    apply (rule conjI[OF ty])
    apply (rule conjI[OF tw])
    apply (rule conjI[OF th])
    apply (rule l)
    done
qed

section \<open>FrameBuffer: publish and read\<close>

lemma publishes_snoc: "publishes (ps @ [p]) vs = publish (fst p) (snd p) (publishes ps vs)"
  by (simp add: publishes_def)

lemma frame_publishes:
  "frame (publishes ps vs) = (if ps = [] then frame vs else Some (fst (last ps)))"
proof (induction ps rule: rev_induct)
  case Nil
  then show ?case by (simp add: publishes_def)
next
  case (snoc p ps)
  then show ?case by (simp add: publishes_snoc publish_def)
qed

lemma update_publishes_read:
  assumes "\<not> stopped vs"
  shows "frame (fst (snd (update vs h w t0 [(True, fr, t)]))) = Some (next_ref h)"
    and "cell (fst (snd (snd (update vs h w t0 [(True, fr, t)])))) (next_ref h) = fr"
  using assms by (simp_all add: Let_def alloc_def publish_def)

text \<open>
  Claim C2. After any sequence of publishes into a new \<open>VideoStream\<close>, of frames that
  exist in the heap, \<open>read\<close> returns \<open>None\<close> when the sequence is empty; otherwise it
  returns a new array, different from every published one, whose content is the
  content of the last published frame, and it leaves the existing arrays as they were.
  The producer loop publishes each frame it reads: after a successful read the held
  frame is the new array with the content read.
\<close>

theorem read_returns_last_published:
  assumes "\<forall>p \<in> set ps. fst p < next_ref h"
  shows "fst (read (publishes ps (VideoStream_init cfg src)) h) =
           (if ps = [] then None else Some (next_ref h))
       \<and> (ps \<noteq> [] \<longrightarrow>
            cell (snd (read (publishes ps (VideoStream_init cfg src)) h)) (next_ref h)
              = cell h (fst (last ps))
          \<and> next_ref h \<notin> fst ` set ps)
       \<and> (\<forall>r < next_ref h. cell (snd (read (publishes ps (VideoStream_init cfg src)) h)) r = cell h r)
       \<and> (\<not> stopped vs \<longrightarrow>
            frame (fst (snd (update vs h w t0 [(True, fr, t)]))) = Some (next_ref h)
          \<and> cell (fst (snd (snd (update vs h w t0 [(True, fr, t)])))) (next_ref h) = fr)"
proof -
  have f: "frame (publishes ps (VideoStream_init cfg src)) = (if ps = [] then None else Some (fst (last ps)))"
    by (simp add: frame_publishes VideoStream_init_def)
  have fresh: "next_ref h \<notin> fst ` set ps" using assms by auto
  have a: "fst (read (publishes ps (VideoStream_init cfg src)) h) =
           (if ps = [] then None else Some (next_ref h))
       \<and> (ps \<noteq> [] \<longrightarrow>
            cell (snd (read (publishes ps (VideoStream_init cfg src)) h)) (next_ref h)
              = cell h (fst (last ps))
          \<and> next_ref h \<notin> fst ` set ps)
       \<and> (\<forall>r < next_ref h. cell (snd (read (publishes ps (VideoStream_init cfg src)) h)) r = cell h r)"
    using fresh by (simp add: read_def f alloc_def)
  have b: "\<not> stopped vs \<longrightarrow>
            frame (fst (snd (update vs h w t0 [(True, fr, t)]))) = Some (next_ref h)
          \<and> cell (fst (snd (snd (update vs h w t0 [(True, fr, t)])))) (next_ref h) = fr"
    using update_publishes_read[of vs h w t0 fr t] by blast
  show ?thesis
    apply (rule conjI[OF conjunct1[OF a]])
    apply (rule conjI[OF conjunct1[OF conjunct2[OF a]]])
    apply (rule conjI[OF conjunct2[OF conjunct2[OF a]]])
    apply (rule b)
    done
qed

theorem read_returns_last_published_witness:
  "fst (0 :: nat, 10 :: rat) < next_ref heap0 \<and> fst (1 :: nat, 11 :: rat) < next_ref heap0
   \<and> fst (read (publishes [(0, 10), (1, 11)] (VideoStream_init default_config (SrcStr ''0''))) heap0) = Some 2
   \<and> cell (snd (read (publishes [(0, 10), (1, 11)] (VideoStream_init default_config (SrcStr ''0''))) heap0)) 2 = frame_a
   \<and> cell (snd (read (publishes [(0, 10), (1, 11)] (VideoStream_init default_config (SrcStr ''0''))) heap0)) 1 = frame_a
   \<and> \<not> stopped stream0
   \<and> frame (fst (snd (update stream0 heap0 empty_world 0 [(True, frame_a, 1)]))) = Some 2
   \<and> cell (fst (snd (snd (update stream0 heap0 empty_world 0 [(True, frame_a, 1)])))) 2 = frame_a"
proof -
  have a: "\<forall>p \<in> set [(0, 10), (1, 11 :: rat)]. fst p < next_ref heap0" by (simp add: heap0_def)
  note t = read_returns_last_published[OF a, where cfg = default_config and src = "SrcStr ''0''"
      and vs = stream0 and w = empty_world and ?t0.0 = 0 and fr = frame_a and t = 1]
  have c1: "cell heap0 (Suc 0) = frame_a" by (simp add: heap0_def)
  have n: "next_ref heap0 = 2" by (simp add: heap0_def)
  have s: "\<not> stopped stream0" by (simp add: stream0_def VideoStream_init_def)
  have t1: "fst (read (publishes [(0, 10), (1, 11)] (VideoStream_init default_config (SrcStr ''0''))) heap0) = Some 2"
    using conjunct1[OF t] by (simp add: n)
  have t2: "cell (snd (read (publishes [(0, 10), (1, 11)] (VideoStream_init default_config (SrcStr ''0''))) heap0)) 2 = frame_a"
    using conjunct1[OF conjunct2[OF t]] by (simp add: n c1)
  have t3: "cell (snd (read (publishes [(0, 10), (1, 11)] (VideoStream_init default_config (SrcStr ''0''))) heap0)) 1 = frame_a"
    using conjunct1[OF conjunct2[OF conjunct2[OF t]]] by (simp add: n c1)
  from conjunct2[OF conjunct2[OF conjunct2[OF t]]] s have u:
    "frame (fst (snd (update stream0 heap0 empty_world 0 [(True, frame_a, 1)]))) = Some (next_ref heap0)
     \<and> cell (fst (snd (snd (update stream0 heap0 empty_world 0 [(True, frame_a, 1)])))) (next_ref heap0) = frame_a"
    by (rule mp)
  have a0: "fst (0 :: nat, 10 :: rat) < next_ref heap0" by (simp add: n)
  have a1: "fst (1 :: nat, 11 :: rat) < next_ref heap0" by (simp add: n)
  show ?thesis
    apply (rule conjI[OF a0])
    apply (rule conjI[OF a1])
    apply (rule conjI[OF t1])
    apply (rule conjI[OF t2])
    apply (rule conjI[OF t3])
    apply (rule conjI[OF s])
    apply (rule u[unfolded n])
    done
qed

section \<open>FrameSource: failure to open and failure to read\<close>








section \<open>Lifecycle\<close>

text \<open>
  Claim C3. \<open>start_stream\<close> while the stream is active answers with status \<open>error\<close> and
  message \<open>Stream already active\<close> and changes nothing; \<open>stop_stream\<close> while no stream is
  active answers with status \<open>error\<close> and message \<open>No active stream to stop\<close> and changes
  nothing. Both return a response; neither raises.
\<close>

theorem lifecycle_misuse_is_reported:
  "(stream_active a \<longrightarrow>
      start_stream cfg opens body a w =
        (Inr \<lparr>status = ''error'', message = ''Stream already active''\<rparr>, a, w))
   \<and> (\<not> stream_active a \<longrightarrow>
      stop_stream a = (Inr \<lparr>status = ''error'', message = ''No active stream to stop''\<rparr>, a))"
  by (simp add: start_stream_def stop_stream_def)

theorem lifecycle_misuse_is_reported_witness:
  "stream_active app_active
   \<and> start_stream default_config never_opens None app_active empty_world =
        (Inr \<lparr>status = ''error'', message = ''Stream already active''\<rparr>, app_active, empty_world)
   \<and> \<not> stream_active app_idle
   \<and> stop_stream app_idle = (Inr \<lparr>status = ''error'', message = ''No active stream to stop''\<rparr>, app_idle)"
proof -
  have a: "stream_active app_active" by (simp add: app_active_def)
  have i: "\<not> stream_active app_idle" by (simp add: app_idle_def)
  note t1 = lifecycle_misuse_is_reported[of app_active default_config never_opens None empty_world]
  note t2 = lifecycle_misuse_is_reported[of app_idle default_config never_opens None empty_world]
  from t1 a have c1: "start_stream default_config never_opens None app_active empty_world =
        (Inr \<lparr>status = ''error'', message = ''Stream already active''\<rparr>, app_active, empty_world)"
    by (simp only: simp_thms)
  from t2 i have c2: "stop_stream app_idle = (Inr \<lparr>status = ''error'', message = ''No active stream to stop''\<rparr>, app_idle)"
    by (simp only: simp_thms)
  show ?thesis
    apply (rule conjI[OF a])
    apply (rule conjI[OF c1])
    apply (rule conjI[OF i])
    apply (rule c2)
    done
qed

section \<open>Track history\<close>











section \<open>A detector without a model\<close>

text \<open>
  Claim C9. When the detector has no model, \<open>detect_and_track\<close> returns the frame it was
  given and an empty list of detections, and raises nothing; the detector has no model
  when loading the configured weights and loading the fallback weights both failed.
  One turn of \<open>process_frames\<close> with such a detector ends normally and publishes the
  frame it read with only the FPS text drawn on it.
\<close>

theorem no_model_passes_frame_through:
  "(model yd = None \<longrightarrow> detect_and_track yd tracked now fr = (Inr (fr, []), yd))
   \<and> (load (MODEL_PATH cfg) \<noteq> None \<and> load ''yolov8n.pt'' \<noteq> None \<longrightarrow>
        model (fst (YOLODetector_init cfg load w)) = None
        \<and> detect_and_track (fst (YOLODetector_init cfg load w)) tracked now fr
            = (Inr (fr, []), fst (YOLODetector_init cfg load w)))
   \<and> (video_stream a = Some vs \<and> frame vs = Some r \<and> yolo_detector a = Some yd \<and> model yd = None \<longrightarrow>
        fst (process_frames_turn cfg fl tracked now a h w) = Inr ()
        \<and> processing_frame (fst (snd (process_frames_turn cfg fl tracked now a h w)))
            = Some ((cell h r)\<lparr>drawn := drawn (cell h r) @
                      [PutText (FpsText (get_fps vs)) (10, 30) (0, 255, 0)]\<rparr>))"
proof (intro conjI impI)
  assume "model yd = None"
  then show "detect_and_track yd tracked now fr = (Inr (fr, []), yd)"
    by (simp add: detect_and_track_def)
next
  assume a: "load (MODEL_PATH cfg) \<noteq> None \<and> load ''yolov8n.pt'' \<noteq> None"
  then show m: "model (fst (YOLODetector_init cfg load w)) = None"
    by (auto simp: YOLODetector_init_def Let_def)
  then show "detect_and_track (fst (YOLODetector_init cfg load w)) tracked now fr
            = (Inr (fr, []), fst (YOLODetector_init cfg load w))"
    by (simp add: detect_and_track_def)
next
  assume a: "video_stream a = Some vs \<and> frame vs = Some r \<and> yolo_detector a = Some yd \<and> model yd = None"
  then have d: "detect_and_track yd tracked now (cell h r) = (Inr (cell h r, []), yd)"
    by (simp add: detect_and_track_def)
  have rd: "read vs h = (Some (next_ref h), snd (alloc (cell h r) h))"
    using a by (simp add: read_def alloc_def)
  have c: "cell (snd (alloc (cell h r) h)) (next_ref h) = cell h r" by (simp add: alloc_def)
  show "fst (process_frames_turn cfg fl tracked now a h w) = Inr ()"
    using a by (cases "detection_storage a") (simp_all add: process_frames_turn_def rd c d)
  show "processing_frame (fst (snd (process_frames_turn cfg fl tracked now a h w)))
            = Some ((cell h r)\<lparr>drawn := drawn (cell h r) @
                      [PutText (FpsText (get_fps vs)) (10, 30) (0, 255, 0)]\<rparr>)"
    using a by (cases "detection_storage a") (simp_all add: process_frames_turn_def rd c d)
qed

theorem no_model_passes_frame_through_witness:
  "model detector_without_model = None
   \<and> detect_and_track detector_without_model (Inr []) 0 frame_a = (Inr (frame_a, []), detector_without_model)
   \<and> no_weights (MODEL_PATH default_config) \<noteq> None \<and> no_weights ''yolov8n.pt'' \<noteq> None
   \<and> model (fst (YOLODetector_init default_config no_weights empty_world)) = None
   \<and> video_stream app_waiting = Some (publish 1 11 stream0) \<and> frame (publish 1 11 stream0) = Some 1
   \<and> yolo_detector app_waiting = Some detector_without_model
   \<and> fst (process_frames_turn default_config no_faults (Inr []) 0 app_waiting heap0 empty_world) = Inr ()
   \<and> processing_frame (fst (snd (process_frames_turn default_config no_faults (Inr []) 0 app_waiting heap0 empty_world)))
       = Some (frame_a\<lparr>drawn := [PutText (FpsText 0) (10, 30) (0, 255, 0)]\<rparr>)"
proof -
  note t = no_model_passes_frame_through[where yd = detector_without_model and tracked = "Inr []"
      and now = 0 and fr = frame_a and load = no_weights and cfg = default_config
      and w = empty_world and a = app_waiting and vs = "publish 1 11 stream0" and r = 1
      and fl = no_faults and h = heap0]
  have m: "model detector_without_model = None" by (simp add: detector_without_model_def)
  have nw: "no_weights (MODEL_PATH default_config) \<noteq> None \<and> no_weights ''yolov8n.pt'' \<noteq> None"
    by (simp add: no_weights_def)
  have v: "video_stream app_waiting = Some (publish 1 11 stream0)" by (simp add: app_waiting_def)
  have fr: "frame (publish 1 11 stream0) = Some 1" by (simp add: publish_def)
  have y: "yolo_detector app_waiting = Some detector_without_model" by (simp add: app_waiting_def)
  have c1: "cell heap0 (Suc 0) = frame_a" by (simp add: heap0_def)
  have dr: "drawn frame_a = []" by (simp add: frame_a_def)
  have g: "get_fps (publish (Suc 0) 11 stream0) = 0"
    by (simp add: get_fps_def publish_def stream0_def VideoStream_init_def)
  from conjunct1[OF t] m have a: "detect_and_track detector_without_model (Inr []) 0 frame_a
      = (Inr (frame_a, []), detector_without_model)" by (rule mp)
  from conjunct1[OF conjunct2[OF t]] nw have b: "model (fst (YOLODetector_init default_config no_weights empty_world)) = None
        \<and> detect_and_track (fst (YOLODetector_init default_config no_weights empty_world)) (Inr []) 0 frame_a
            = (Inr (frame_a, []), fst (YOLODetector_init default_config no_weights empty_world))"
    by (rule mp)
  have pre: "video_stream app_waiting = Some (publish 1 11 stream0) \<and> frame (publish 1 11 stream0) = Some 1
      \<and> yolo_detector app_waiting = Some detector_without_model \<and> model detector_without_model = None"
    using v fr y m by simp
  from conjunct2[OF conjunct2[OF t]] pre have c:
    "fst (process_frames_turn default_config no_faults (Inr []) 0 app_waiting heap0 empty_world) = Inr ()
        \<and> processing_frame (fst (snd (process_frames_turn default_config no_faults (Inr []) 0 app_waiting heap0 empty_world)))
            = Some ((cell heap0 1)\<lparr>drawn := drawn (cell heap0 1) @
                      [PutText (FpsText (get_fps (publish 1 11 stream0))) (10, 30) (0, 255, 0)]\<rparr>)"
    by (rule mp)
  have c2: "processing_frame (fst (snd (process_frames_turn default_config no_faults (Inr []) 0 app_waiting heap0 empty_world)))
       = Some (frame_a\<lparr>drawn := [PutText (FpsText 0) (10, 30) (0, 255, 0)]\<rparr>)"
    using conjunct2[OF c] by (simp add: c1 dr g)
  show ?thesis
    apply (rule conjI[OF m])
    apply (rule conjI[OF a])
    apply (rule conjI[OF conjunct1[OF nw]])
    apply (rule conjI[OF conjunct2[OF nw]])
    apply (rule conjI[OF conjunct1[OF b]])
    apply (rule conjI[OF v])
    apply (rule conjI[OF fr])
    apply (rule conjI[OF y])
    apply (rule conjI[OF conjunct1[OF c]])
    apply (rule c2)
    done
qed

section \<open>The placeholder frame\<close>

text \<open>
  Claim C7, as the code has it. While no processed frame has been published, each
  turn of \<open>generate_frames\<close> yields the multipart chunk of the encoded placeholder: a
  black frame 640 wide and 480 high with 3 channels and nothing drawn on it. These
  are the width and height that the configuration has when \<open>FRAME_WIDTH\<close> and
  \<open>FRAME_HEIGHT\<close> are not set in the environment.
\<close>

theorem placeholder_before_first_frame:
  "(processing_frame (states n) = None \<longrightarrow>
      generate_frames imencode states n =
        ''--frame'' @ crlf @ ''Content-Type: image/jpeg'' @ crlf @ crlf @ imencode blank_frame @ crlf
      \<and> frame_to_encode (states n) = blank_frame)
   \<and> shape blank_frame = (480, 640, 3)
   \<and> pixels blank_frame row col ch = 0
   \<and> drawn blank_frame = []
   \<and> shape blank_frame = (nat (FRAME_HEIGHT default_config), nat (FRAME_WIDTH default_config), 3)"
  by (simp add: generate_frames_def generate_frames_next_def frame_to_encode_def blank_frame_def
        default_config_def)

theorem placeholder_before_first_frame_witness:
  "processing_frame app_idle = None
   \<and> generate_frames jpeg_stub (\<lambda>n. app_idle) 3 =
        ''--frame'' @ crlf @ ''Content-Type: image/jpeg'' @ crlf @ crlf @ jpeg_stub blank_frame @ crlf
   \<and> frame_to_encode app_idle = blank_frame"
proof -
  note t = placeholder_before_first_frame[where states = "\<lambda>n. app_idle" and n = 3 and imencode = jpeg_stub]
  have p: "processing_frame app_idle = None" by (simp add: app_idle_def)
  from conjunct1[OF t] p have a: "generate_frames jpeg_stub (\<lambda>n. app_idle) 3 =
        ''--frame'' @ crlf @ ''Content-Type: image/jpeg'' @ crlf @ crlf @ jpeg_stub blank_frame @ crlf
      \<and> frame_to_encode app_idle = blank_frame"
    by (rule mp)
  show ?thesis by (rule conjI[OF p a])
qed

text \<open>
  Claim C7 as stated fails when the configuration sets another resolution: with
  \<open>FRAME_WIDTH\<close> 1280 and \<open>FRAME_HEIGHT\<close> 720 the placeholder is still 640 by 480.
\<close>

theorem placeholder_ignores_configuration:
  "processing_frame app_idle = None
   \<and> shape (frame_to_encode app_idle) = (480, 640, 3)
   \<and> (nat (FRAME_HEIGHT cfg_hd), nat (FRAME_WIDTH cfg_hd), 3 :: nat) = (720, 1280, 3)
   \<and> shape (frame_to_encode app_idle) \<noteq> (nat (FRAME_HEIGHT cfg_hd), nat (FRAME_WIDTH cfg_hd), 3)"
  by (simp add: app_idle_def frame_to_encode_def blank_frame_def cfg_hd_def default_config_def)


end
